theory Spec2Isabelle
  imports Main "HOL-Library.Multiset"
begin

section \<open>JavaScript values\<close>

text \<open>
  The extension is TypeScript running on a JavaScript engine. Three facts of the
  language matter for the code below and are written out in the model:
  \<^item> a thrown value is a value: \<open>new Error(m)\<close>, the engine's own \<open>TypeError\<close>, or
    anything a collaborator rejects with;
  \<^item> a condition \<open>if (v)\<close> on a string that may be \<open>undefined\<close> is false both for
    \<open>undefined\<close> and for the empty string;
  \<^item> an object literal \<open>{}\<close> inherits from \<open>Object.prototype\<close>, so \<open>obj[k]\<close> finds
    the inherited members under their names although the object has no own property.
\<close>

datatype js_exn = Error string | TypeError string | Thrown string

text \<open>The text a template literal \<^verbatim>\<open>${error}\<close> produces for a thrown value.\<close>

fun exn_to_string :: "js_exn \<Rightarrow> string" where
  "exn_to_string (Error m) = (if m = [] then ''Error'' else ''Error: '' @ m)"
| "exn_to_string (TypeError m) = (if m = [] then ''TypeError'' else ''TypeError: '' @ m)"
| "exn_to_string (Thrown s) = s"

text \<open>
  An optional string under a truthiness test: \<open>None\<close> is \<open>undefined\<close>; the result is the
  string when the test succeeds.
\<close>

fun truthyValue :: "string option \<Rightarrow> string option" where
  "truthyValue None = None"
| "truthyValue (Some v) = (if v = [] then None else Some v)"

definition quoted :: "string \<Rightarrow> string" where
  "quoted s = [CHR 0x27] @ s @ [CHR 0x27]"

section \<open>Task catalog: grouping by source\<close>

record MiseTask =
  task_name :: string
  task_source :: "string option"
  task_description :: string

text \<open>
  \<open>Record<string, MiseTask[]>\<close> built from \<open>{}\<close>: the own properties in creation order,
  and below them the members of \<open>Object.prototype\<close>. The order in which the engine
  enumerates own properties (index-like keys first) is not modelled; no statement below
  depends on it.
\<close>

type_synonym groups = "(string \<times> MiseTask list) list"

definition objectPrototypeKeys :: "string list" where
  "objectPrototypeKeys =
     [''constructor'', ''hasOwnProperty'', ''isPrototypeOf'', ''propertyIsEnumerable'',
      ''toLocaleString'', ''toString'', ''valueOf'', ''__proto__'',
      ''__defineGetter__'', ''__defineSetter__'', ''__lookupGetter__'', ''__lookupSetter__'']"

datatype 'a js_prop = Own 'a | Inherited | Undefined

definition getProp :: "(string \<times> 'a) list \<Rightarrow> string \<Rightarrow> 'a js_prop" where
  "getProp obj k =
     (case map_of obj k of
        Some v \<Rightarrow> Own v
      | None \<Rightarrow> if k \<in> set objectPrototypeKeys then Inherited else Undefined)"

fun setProp :: "string \<Rightarrow> 'a \<Rightarrow> (string \<times> 'a) list \<Rightarrow> (string \<times> 'a) list" where
  "setProp k v [] = [(k, v)]"
| "setProp k v (p # ps) = (if fst p = k then (k, v) # ps else p # setProp k v ps)"

text \<open>\<^verbatim>\<open>task.source || "Unknown"\<close>\<close>

definition sourceOf :: "MiseTask \<Rightarrow> string" where
  "sourceOf task = (case truthyValue (task_source task) of Some s \<Rightarrow> s | None \<Rightarrow> ''Unknown'')"

text \<open>
  The callback of \<open>tasks.reduce\<close>. \<open>!groups[source]\<close> holds only when the lookup gives
  \<open>undefined\<close>: an array (even an empty one) and every inherited member are truthy.
  \<open>groups[source].push(task)\<close> appends to an own array; on an inherited member, which has
  no \<open>push\<close>, the call throws a \<open>TypeError\<close>.
\<close>

definition groupStep :: "groups \<Rightarrow> MiseTask \<Rightarrow> js_exn + groups" where
  "groupStep groups task =
     (let source = sourceOf task;
          groups1 = (if getProp groups source = Undefined then setProp source [] groups
                     else groups)
      in case getProp groups1 source of
           Own ts \<Rightarrow> Inr (setProp source (ts @ [task]) groups1)
         | Inherited \<Rightarrow> Inl (TypeError ''groups[source].push is not a function'')
         | Undefined \<Rightarrow>
             Inl (TypeError ''Cannot read properties of undefined (reading push)''))"

fun reduce :: "('b \<Rightarrow> 'a \<Rightarrow> js_exn + 'b) \<Rightarrow> 'a list \<Rightarrow> 'b \<Rightarrow> js_exn + 'b" where
  "reduce f [] acc = Inr acc"
| "reduce f (x # xs) acc = (case f acc x of Inl e \<Rightarrow> Inl e | Inr acc' \<Rightarrow> reduce f xs acc')"

definition groupTasksBySource :: "MiseTask list \<Rightarrow> js_exn + groups" where
  "groupTasksBySource tasks = reduce groupStep tasks []"


section \<open>Effects: prompts, collaborators and the trace of calls\<close>

record PositionalArg =
  arg_name :: string
  arg_required :: bool

record FlagArg =
  flag_name :: string
  flag_arg :: "string option"

record UsageSpec =
  args :: "PositionalArg list"
  flags :: "FlagArg list"

record MiseTaskInfo =
  usageSpec :: UsageSpec

record MiseTool =
  tool_name :: string

record ExecResult =
  stdout :: string
  stderr :: string

record ConfigFile =
  file_path :: string

text \<open>
  Every call that leaves the provider is recorded, in order: the two prompts of the editor
  with the reply they got, the error notification, the calls to \<open>miseService\<close>, the shell
  probe, the logger, and the change callback. \<open>CallCollectArgumentValues\<close> marks the entry
  into \<open>collectArgumentValues\<close>.
\<close>

datatype event =
    ShowInputBox string string "string option"
  | ShowQuickPick string "string option"
  | ShowErrorMessage string
  | GetTaskInfo string
  | GetTools
  | ExecAsync string
  | RunTask string "string list"
  | WatchTask string "string list"
  | CallCollectArgumentValues
  | GetMiseConfigFiles
  | ExecMiseCommand string
  | OnConfigChangeCallback string
  | LoggerWarn string
  | LoggerInfo string

text \<open>
  \<open>miseService\<close> is a collaborator: each operation settles as the environment decides,
  \<open>Inl\<close> a rejection and \<open>Inr\<close> the value. \<open>getTaskInfo\<close> fulfils with \<open>None\<close> when it
  has no such task.
\<close>

record MiseService =
  getTaskInfo :: "string \<Rightarrow> js_exn + MiseTaskInfo option"
  getTools :: "js_exn + MiseTool list"
  miseService_runTask :: "string \<Rightarrow> string list \<Rightarrow> js_exn + unit"
  miseService_watchTask :: "string \<Rightarrow> string list \<Rightarrow> js_exn + unit"
  getMiseConfigFiles :: "js_exn + ConfigFile list"
  execMiseCommand :: "string \<Rightarrow> js_exn + ExecResult"

text \<open>
  The user is a script of replies, one for each prompt in the order the prompts appear;
  \<open>None\<close> is a dismissed prompt (\<open>undefined\<close>), and a script that has run out dismisses
  every further prompt. An asynchronous operation takes the replies still to come and
  gives its outcome, the replies left and the calls it made.
\<close>

type_synonym answers = "string option list"

type_synonym 'a async = "answers \<Rightarrow> (js_exn + 'a) \<times> answers \<times> event list"

definition resolve :: "'a \<Rightarrow> 'a async" where
  "resolve x ans = (Inr x, ans, [])"

definition reject :: "js_exn \<Rightarrow> 'a async" where
  "reject e ans = (Inl e, ans, [])"

text \<open>\<open>const x = await m; f x\<close>: a rejection of \<open>m\<close> skips \<open>f\<close>.\<close>

definition andThen :: "'a async \<Rightarrow> ('a \<Rightarrow> 'b async) \<Rightarrow> 'b async" where
  "andThen m f ans =
     (case m ans of
        (Inl e, ans1, es1) \<Rightarrow> (Inl e, ans1, es1)
      | (Inr x, ans1, es1) \<Rightarrow> (case f x ans1 of (r, ans2, es2) \<Rightarrow> (r, ans2, es1 @ es2)))"

text \<open>\<open>try { m } catch (error) { h error }\<close>\<close>

definition tryCatch :: "'a async \<Rightarrow> (js_exn \<Rightarrow> 'a async) \<Rightarrow> 'a async" where
  "tryCatch m h ans =
     (case m ans of
        (Inl e, ans1, es1) \<Rightarrow> (case h e ans1 of (r, ans2, es2) \<Rightarrow> (r, ans2, es1 @ es2))
      | (Inr x, ans1, es1) \<Rightarrow> (Inr x, ans1, es1))"

text \<open>A call to a collaborator: recorded, and settled as the collaborator says.\<close>

definition call :: "event \<Rightarrow> js_exn + 'a \<Rightarrow> 'a async" where
  "call ev r ans = (r, ans, [ev])"

text \<open>\<open>Promise.allSettled\<close> on two calls: both are made, neither rejection escapes.\<close>

definition settled :: "'a async \<Rightarrow> (js_exn + 'a) async" where
  "settled m ans = (case m ans of (r, ans1, es) \<Rightarrow> (Inr r, ans1, es))"

definition allSettled :: "'a async \<Rightarrow> 'b async \<Rightarrow> ((js_exn + 'a) \<times> (js_exn + 'b)) async" where
  "allSettled a b = andThen (settled a) (\<lambda>res1. andThen (settled b) (\<lambda>res2. resolve (res1, res2)))"

text \<open>\<open>for (const x of xs) { body }\<close> over a local variable the body updates.\<close>

fun forEach :: "('a \<Rightarrow> 's \<Rightarrow> 's async) \<Rightarrow> 'a list \<Rightarrow> 's \<Rightarrow> 's async" where
  "forEach body [] s = resolve s"
| "forEach body (x # xs) s = andThen (body x s) (forEach body xs)"

definition nextAnswer :: "answers \<Rightarrow> string option" where
  "nextAnswer ans = (case ans of [] \<Rightarrow> None | a # rest \<Rightarrow> a)"

definition showInputBox :: "string \<Rightarrow> string \<Rightarrow> string option async" where
  "showInputBox prompt placeHolder ans =
     (Inr (nextAnswer ans), tl ans, [ShowInputBox prompt placeHolder (nextAnswer ans)])"

definition showQuickPick :: "string \<Rightarrow> string option async" where
  "showQuickPick placeHolder ans =
     (Inr (nextAnswer ans), tl ans, [ShowQuickPick placeHolder (nextAnswer ans)])"

definition showErrorMessage :: "string \<Rightarrow> unit async" where
  "showErrorMessage message = call (ShowErrorMessage message) (Inr ())"

section \<open>Argument collection\<close>

text \<open>The body of the loop over \<open>spec.args\<close>.\<close>

definition collectArg :: "PositionalArg \<Rightarrow> string list \<Rightarrow> string list async" where
  "collectArg arg cmdArgs =
     andThen (showInputBox (''Enter value for '' @ arg_name arg) (arg_name arg)) (\<lambda>value.
       case truthyValue value of
         Some v \<Rightarrow> resolve (cmdArgs @ [v])
       | None \<Rightarrow>
           if arg_required arg
           then reject (Error (''Required argument '' @ arg_name arg @ '' was not provided''))
           else resolve cmdArgs)"

text \<open>The body of the loop over \<open>spec.flags\<close>; \<open>if (flag.arg)\<close> is a truthiness test.\<close>

definition collectFlag :: "FlagArg \<Rightarrow> string list \<Rightarrow> string list async" where
  "collectFlag flag cmdArgs =
     (case truthyValue (flag_arg flag) of
        Some placeHolder \<Rightarrow>
          andThen (showQuickPick (''Do you want to provide '' @ flag_name flag @ ''?''))
            (\<lambda>shouldProvide.
               if shouldProvide = Some ''Yes''
               then andThen (showInputBox (''Enter value for '' @ flag_name flag) placeHolder)
                      (\<lambda>value.
                         case truthyValue value of
                           Some v \<Rightarrow> resolve (cmdArgs @ [flag_name flag, v])
                         | None \<Rightarrow> resolve cmdArgs)
               else resolve cmdArgs)
      | None \<Rightarrow>
          andThen (showQuickPick (''Enable '' @ flag_name flag @ ''?''))
            (\<lambda>shouldEnable.
               if shouldEnable = Some ''Yes''
               then resolve (cmdArgs @ [flag_name flag])
               else resolve cmdArgs))"

definition collectArgumentValues :: "MiseTaskInfo \<Rightarrow> string list async" where
  "collectArgumentValues info =
     andThen (call CallCollectArgumentValues (Inr ())) (\<lambda>_.
     andThen (forEach collectArg (args (usageSpec info)) []) (\<lambda>cmdArgs.
     forEach collectFlag (flags (usageSpec info)) cmdArgs))"

section \<open>Running and watching a task\<close>

text \<open>
  The two texts both operations build: \<^verbatim>\<open>new Error(`Task '${taskName}' not found`)\<close> and
  \<^verbatim>\<open>`Failed to run task '${taskName}': ${error}`\<close>.
\<close>

definition taskNotFound :: "string \<Rightarrow> js_exn" where
  "taskNotFound taskName = Error (''Task '' @ quoted taskName @ '' not found'')"

definition failedToRunTask :: "string \<Rightarrow> js_exn \<Rightarrow> string" where
  "failedToRunTask taskName error =
     ''Failed to run task '' @ quoted taskName @ '': '' @ exn_to_string error"

text \<open>The \<open>try\<close> block of \<open>runTask\<close>; \<open>runTask\<close> is the block under its \<open>catch\<close>.\<close>

definition runTask_try :: "MiseService \<Rightarrow> string \<Rightarrow> unit async" where
  "runTask_try miseService taskName =
     andThen (call (GetTaskInfo taskName) (getTaskInfo miseService taskName)) (\<lambda>taskInfo.
       case taskInfo of
         None \<Rightarrow> reject (taskNotFound taskName)
       | Some info \<Rightarrow>
           if length (args (usageSpec info)) > 0 \<or> length (flags (usageSpec info)) > 0
           then andThen (collectArgumentValues info) (\<lambda>cmdArgs.
                  call (RunTask taskName cmdArgs)
                    (miseService_runTask miseService taskName cmdArgs))
           else call (RunTask taskName []) (miseService_runTask miseService taskName []))"

definition runTask :: "MiseService \<Rightarrow> string \<Rightarrow> unit async" where
  "runTask miseService taskName =
     tryCatch (runTask_try miseService taskName)
       (\<lambda>error. showErrorMessage (failedToRunTask taskName error))"

definition watchexecRequired :: string where
  "watchexecRequired =
     ''watchexec is required to run tasks in watch mode. Install it with `mise use -g watchexec`''"

text \<open>The \<open>try\<close> block of \<open>watchTask\<close>, and the \<open>try\<close> statement with its \<open>catch\<close>.\<close>

definition watchTask_try :: "MiseService \<Rightarrow> string \<Rightarrow> unit async" where
  "watchTask_try miseService taskName =
     andThen (call (GetTaskInfo taskName) (getTaskInfo miseService taskName)) (\<lambda>taskInfo.
       case taskInfo of
         None \<Rightarrow> reject (taskNotFound taskName)
       | Some info \<Rightarrow>
           if length (args (usageSpec info)) > 0 \<or> length (flags (usageSpec info)) > 0
           then andThen (collectArgumentValues info) (\<lambda>cmdArgs.
                  call (WatchTask taskName cmdArgs)
                    (miseService_watchTask miseService taskName cmdArgs))
           else call (WatchTask taskName []) (miseService_watchTask miseService taskName []))"

definition watchTask_guarded :: "MiseService \<Rightarrow> string \<Rightarrow> unit async" where
  "watchTask_guarded miseService taskName =
     tryCatch (watchTask_try miseService taskName)
       (\<lambda>error. showErrorMessage (failedToRunTask taskName error))"

text \<open>
  \<open>watchTask\<close>: the two probes under \<open>Promise.allSettled\<close>, the early return when neither
  finds \<open>watchexec\<close>, then the \<open>try\<close> statement.
\<close>

definition watchTask ::
  "MiseService \<Rightarrow> (string \<Rightarrow> js_exn + ExecResult) \<Rightarrow> string \<Rightarrow> unit async" where
  "watchTask miseService execAsync taskName =
     andThen (allSettled (call GetTools (getTools miseService))
                (call (ExecAsync ''which watchexec'') (execAsync ''which watchexec'')))
       (\<lambda>(res1, res2).
          let tools = (case res1 of Inr v \<Rightarrow> v | Inl e \<Rightarrow> []);
              watchexecFromTools = find (\<lambda>tool. tool_name tool = ''watchexec'') tools;
              watchexec = (case res2 of Inr v \<Rightarrow> stdout v | Inl e \<Rightarrow> [])
          in if watchexec = [] \<and> watchexecFromTools = None
             then showErrorMessage watchexecRequired
             else watchTask_guarded miseService taskName)"

text \<open>The calls of a trace that start a task in the backend.\<close>

fun isInvocation :: "event \<Rightarrow> bool" where
  "isInvocation (RunTask n a) = True"
| "isInvocation (WatchTask n a) = True"
| "isInvocation _ = False"

definition outcome :: "(js_exn + 'a) \<times> answers \<times> event list \<Rightarrow> js_exn + 'a" where
  "outcome r = fst r"

definition calls :: "(js_exn + 'a) \<times> answers \<times> event list \<Rightarrow> event list" where
  "calls r = snd (snd r)"

section \<open>The file watcher\<close>

text \<open>
  The only listener the class ever registers is its own bound method. A watcher of the
  editor is modelled by what the class does with it: the pattern it was created for, the
  listeners registered for the three kinds of event, and whether it was pushed to
  \<open>context.subscriptions\<close>.
\<close>

datatype listener = HandleFileChange

record FileSystemWatcher =
  watch_base :: string
  watch_pattern :: string
  onDidChange :: "listener list"
  onDidCreate :: "listener list"
  onDidDelete :: "listener list"
  subscribed :: bool

definition createFileSystemWatcher :: "string \<Rightarrow> string \<Rightarrow> FileSystemWatcher" where
  "createFileSystemWatcher base pattern =
     \<lparr>watch_base = base, watch_pattern = pattern,
      onDidChange = [], onDidCreate = [], onDidDelete = [], subscribed = False\<rparr>"

text \<open>
  What the class imports from \<open>./configuration\<close> and \<open>./utils/miseUtilts\<close>, whose sources
  are not part of the file: taken as parameters. The two pattern constants stand for the
  text they give inside a template literal.
\<close>

record Configuration =
  getRootFolder :: "string option"
  misePatterns :: string
  idiomaticFiles :: string
  allowedFileTaskDirs :: "string list"

record MiseFileWatcher =
  fileWatchers :: "FileSystemWatcher list"
  miseService :: MiseService
  onConfigChangeCallback :: "string \<Rightarrow> js_exn + unit"

text \<open>An array inside a template literal: its elements joined by commas.\<close>

fun joinComma :: "string list \<Rightarrow> string" where
  "joinComma [] = []"
| "joinComma [x] = x"
| "joinComma (x # y # ys) = x @ '','' @ joinComma (y # ys)"

text \<open>The last loop of \<open>initializeFileWatcher\<close>, for one watcher.\<close>

definition register :: "FileSystemWatcher \<Rightarrow> FileSystemWatcher" where
  "register watcher =
     watcher\<lparr>subscribed := True,
             onDidChange := onDidChange watcher @ [HandleFileChange],
             onDidCreate := onDidCreate watcher @ [HandleFileChange],
             onDidDelete := onDidDelete watcher @ [HandleFileChange]\<rparr>"

text \<open>
  \<open>initializeFileWatcher\<close> updates \<open>this.fileWatchers\<close> in place, so the instance is
  returned beside the outcome: what was pushed before a rejection stays pushed.
  \<open>if (!rootFolder) return\<close> is a truthiness test: it returns for a missing root folder
  and for an empty one.
\<close>

definition initializeFileWatcher ::
  "Configuration \<Rightarrow> MiseFileWatcher \<Rightarrow> (js_exn + unit) \<times> MiseFileWatcher \<times> event list" where
  "initializeFileWatcher cfg self =
     (case truthyValue (getRootFolder cfg) of
        None \<Rightarrow> (Inr (), self, [])
      | Some rootFolder \<Rightarrow>
          let self1 = self\<lparr>fileWatchers := fileWatchers self @
                        [createFileSystemWatcher rootFolder (''{'' @ misePatterns cfg @ ''}'')]\<rparr>
          in case getMiseConfigFiles (miseService self1) of
               Inl e \<Rightarrow> (Inl e, self1, [GetMiseConfigFiles])
             | Inr configFiles \<Rightarrow>
                 let self2 = self1\<lparr>fileWatchers := fileWatchers self1 @
                               map (\<lambda>file. createFileSystemWatcher (file_path file) ''*'')
                                 configFiles\<rparr>;
                     self3 = self2\<lparr>fileWatchers := fileWatchers self2 @
                               [createFileSystemWatcher rootFolder
                                  (''{'' @ idiomaticFiles cfg @ ''}'')]\<rparr>;
                     self4 = self3\<lparr>fileWatchers := fileWatchers self3 @
                               [createFileSystemWatcher rootFolder
                                  (''{'' @ joinComma (map (\<lambda>dir. dir @ ''/**/*'')
                                                      (allowedFileTaskDirs cfg)) @ ''}'')]\<rparr>
                 in (Inr (), self4\<lparr>fileWatchers := map register (fileWatchers self4)\<rparr>,
                     [GetMiseConfigFiles]))"

text \<open>
  The constructor: the rejection of \<open>initializeFileWatcher\<close> goes to the logger. The
  instance is the one the initialisation has left once its promise has settled.
\<close>

definition newMiseFileWatcher ::
  "Configuration \<Rightarrow> MiseService \<Rightarrow> (string \<Rightarrow> js_exn + unit) \<Rightarrow>
   (js_exn + MiseFileWatcher) \<times> event list" where
  "newMiseFileWatcher cfg service callback =
     (case initializeFileWatcher cfg
             \<lparr>fileWatchers = [], miseService = service, onConfigChangeCallback = callback\<rparr> of
        (Inl error, self, es) \<Rightarrow>
          (Inr self, es @ [LoggerWarn ''Error initializing file watcher'',
                           LoggerInfo ''Unable to initialize file watcher''])
      | (Inr _, self, es) \<Rightarrow> (Inr self, es))"

text \<open>\<open>isMiseExtensionEnabled()\<close> is read at every event: the flag is an argument.\<close>

definition handleFileChange ::
  "MiseFileWatcher \<Rightarrow> bool \<Rightarrow> string \<Rightarrow> (js_exn + unit) \<times> event list" where
  "handleFileChange self isMiseExtensionEnabled uri =
     (if \<not> isMiseExtensionEnabled then (Inr (), [])
      else case execMiseCommand (miseService self) ''tasks ls'' of
             Inl error \<Rightarrow>
               (Inr (), [ExecMiseCommand ''tasks ls'',
                         LoggerInfo (''Error while handling file change '' @ exn_to_string error)])
           | Inr result \<Rightarrow>
               if stdout result \<noteq> [] then
                 (case onConfigChangeCallback self uri of
                    Inl error \<Rightarrow>
                      (Inr (), [ExecMiseCommand ''tasks ls'', OnConfigChangeCallback uri,
                                LoggerInfo (''Error while handling file change '' @
                                            exn_to_string error)])
                  | Inr _ \<Rightarrow>
                      (Inr (), [ExecMiseCommand ''tasks ls'', OnConfigChangeCallback uri]))
               else (Inr (), [ExecMiseCommand ''tasks ls'']))"

text \<open>
  The editor's side of an event: a watcher whose pattern covers the path calls the
  listeners registered for that kind of event, and a watcher without a listener calls
  nothing. Which paths a pattern covers is the editor's business (\<open>covers\<close>).
\<close>

datatype fs_event = DidChange | DidCreate | DidDelete

fun listeners :: "fs_event \<Rightarrow> FileSystemWatcher \<Rightarrow> listener list" where
  "listeners DidChange watcher = onDidChange watcher"
| "listeners DidCreate watcher = onDidCreate watcher"
| "listeners DidDelete watcher = onDidDelete watcher"

definition fire ::
  "(FileSystemWatcher \<Rightarrow> string \<Rightarrow> bool) \<Rightarrow> MiseFileWatcher \<Rightarrow>
   bool \<times> fs_event \<times> string \<Rightarrow> event list" where
  "fire covers self ev =
     (case ev of (isMiseExtensionEnabled, kind, uri) \<Rightarrow>
        concat (map (\<lambda>watcher.
                  if covers watcher uri
                  then concat (map (\<lambda>l. case l of HandleFileChange \<Rightarrow>
                                      snd (handleFileChange self isMiseExtensionEnabled uri))
                                 (listeners kind watcher))
                  else [])
                (fileWatchers self)))"

definition fireAll ::
  "(FileSystemWatcher \<Rightarrow> string \<Rightarrow> bool) \<Rightarrow> MiseFileWatcher \<Rightarrow>
   (bool \<times> fs_event \<times> string) list \<Rightarrow> event list" where
  "fireAll covers self evs = concat (map (fire covers self) evs)"

section \<open>Auxiliary notions for the statements\<close>

subsection \<open>Examples of collaborators\<close>

definition idleService :: MiseService where
  "idleService =
     \<lparr>getTaskInfo = (\<lambda>taskName. Inr None),
      getTools = Inr [],
      miseService_runTask = (\<lambda>taskName cmdArgs. Inr ()),
      miseService_watchTask = (\<lambda>taskName cmdArgs. Inr ()),
      getMiseConfigFiles = Inr [],
      execMiseCommand = (\<lambda>cmd. Inr \<lparr>stdout = [], stderr = []\<rparr>)\<rparr>"

definition whichFinds :: "string \<Rightarrow> js_exn + ExecResult" where
  "whichFinds cmd = Inr \<lparr>stdout = ''/usr/bin/watchexec'', stderr = []\<rparr>"

definition whichFails :: "string \<Rightarrow> js_exn + ExecResult" where
  "whichFails cmd = Inl (Error ''Command failed: which watchexec'')"

definition plainInfo :: MiseTaskInfo where
  "plainInfo = \<lparr>usageSpec = \<lparr>args = [], flags = []\<rparr>\<rparr>"

definition deployInfo :: MiseTaskInfo where
  "deployInfo =
     \<lparr>usageSpec =
        \<lparr>args = [\<lparr>arg_name = ''dir'', arg_required = False\<rparr>,
                 \<lparr>arg_name = ''file'', arg_required = True\<rparr>],
         flags = [\<lparr>flag_name = ''--env'', flag_arg = Some ''<name>''\<rparr>,
                  \<lparr>flag_name = ''--verbose'', flag_arg = None\<rparr>]\<rparr>\<rparr>"

definition workspaceConfig :: Configuration where
  "workspaceConfig =
     \<lparr>getRootFolder = Some ''/work'', misePatterns = ''mise.toml,.mise.toml'',
      idiomaticFiles = ''.nvmrc,.node-version'',
      allowedFileTaskDirs = [''mise-tasks'', ''.mise/tasks'']\<rparr>"

definition notify :: "string \<Rightarrow> js_exn + unit" where
  "notify uri = Inr ()"

subsection \<open>Grouping\<close>

text \<open>
  The state of the fold after the tasks \<open>seen\<close>: one group for each source seen, and the
  group of a source holds the tasks of that source in the order they came.
\<close>

definition grouped :: "groups \<Rightarrow> MiseTask list \<Rightarrow> bool" where
  "grouped groups seen \<longleftrightarrow>
     distinct (map fst groups) \<and>
     set (map fst groups) = sourceOf ` set seen \<and>
     (\<forall>k ts. map_of groups k = Some ts \<longrightarrow> ts = filter (\<lambda>t. sourceOf t = k) seen) \<and>
     mset (concat (map snd groups)) = mset seen"

subsection \<open>The watch prerequisite\<close>

text \<open>
  What it is for a probe to report \<open>watchexec\<close>: the tool listing fulfils with an entry of
  that very name; the shell probe fulfils with some output. A probe that rejects reports
  nothing.
\<close>

definition toolsReportWatchexec :: "js_exn + MiseTool list \<Rightarrow> bool" where
  "toolsReportWatchexec res =
     (case res of Inr tools \<Rightarrow> ''watchexec'' \<in> set (map tool_name tools) | Inl e \<Rightarrow> False)"

definition probeReportsWatchexec :: "js_exn + ExecResult \<Rightarrow> bool" where
  "probeReportsWatchexec res = (case res of Inr r \<Rightarrow> stdout r \<noteq> [] | Inl e \<Rightarrow> False)"

subsection \<open>Prompts\<close>

text \<open>The calls \<open>collectArgumentValues\<close> can make, and the question it puts for a flag.\<close>

fun isPrompt :: "event \<Rightarrow> bool" where
  "isPrompt (ShowInputBox p h a) = True"
| "isPrompt (ShowQuickPick h a) = True"
| "isPrompt CallCollectArgumentValues = True"
| "isPrompt _ = False"

definition flagQuestion :: "FlagArg \<Rightarrow> string" where
  "flagQuestion flag =
     (case truthyValue (flag_arg flag) of
        Some placeHolder \<Rightarrow> ''Do you want to provide '' @ flag_name flag @ ''?''
      | None \<Rightarrow> ''Enable '' @ flag_name flag @ ''?'')"

subsection \<open>Watchers without listeners\<close>

definition unheard :: "FileSystemWatcher \<Rightarrow> bool" where
  "unheard watcher \<longleftrightarrow>
     onDidChange watcher = [] \<and> onDidCreate watcher = [] \<and> onDidDelete watcher = []"

section \<open>Unfolding sets\<close>

lemmas async_defs =
  resolve_def reject_def andThen_def tryCatch_def call_def settled_def allSettled_def
  showInputBox_def showQuickPick_def showErrorMessage_def outcome_def calls_def

lemmas example_defs =
  idleService_def whichFinds_def whichFails_def plainInfo_def deployInfo_def

lemmas model_defs =
  runTask_def runTask_try_def watchTask_def watchTask_guarded_def watchTask_try_def
  collectArgumentValues_def collectArg_def collectFlag_def taskNotFound_def
  failedToRunTask_def quoted_def nextAnswer_def Let_def

section \<open>Grouping: what holds and where it breaks\<close>

lemma map_of_setProp: "map_of (setProp k v ps) = (map_of ps)(k \<mapsto> v)"
  by (induction ps) (auto simp: fun_eq_iff)

lemma keys_setProp:
  "map fst (setProp k v ps) = (if k \<in> fst ` set ps then map fst ps else map fst ps @ [k])"
  by (induction ps) auto

lemma key_set_setProp: "fst ` set (setProp k v ps) = insert k (fst ` set ps)"
  by (induction ps) auto

lemma concat_setProp_new:
  "k \<notin> fst ` set ps \<Longrightarrow> concat (map snd (setProp k v ps)) = concat (map snd ps) @ v"
  by (induction ps) auto

lemma mset_setProp_old:
  "map_of ps k = Some old \<Longrightarrow>
   mset (concat (map snd (setProp k v ps))) + mset old = mset (concat (map snd ps)) + mset v"
  by (induction ps) (auto split: if_splits)

lemma groupStep_grouped:
  assumes "grouped groups seen" and "sourceOf task \<notin> set objectPrototypeKeys"
  shows "\<exists>groups'. groupStep groups task = Inr groups' \<and> grouped groups' (seen @ [task])"
proof (cases "map_of groups (sourceOf task)")
  case None
  let ?k = "sourceOf task"
  from None have notin: "?k \<notin> fst ` set groups"
    by (simp add: map_of_eq_None_iff)
  have step: "groupStep groups task = Inr (setProp ?k [task] (setProp ?k [] groups))"
    using None assms(2) by (simp add: groupStep_def getProp_def Let_def map_of_setProp)
  from assms(1) have keys: "fst ` set groups = sourceOf ` set seen"
    by (simp add: grouped_def)
  with notin have "?k \<notin> sourceOf ` set seen" by simp
  then have "\<forall>t\<in>set seen. sourceOf t \<noteq> ?k" by (metis imageI)
  then have nofilter: "filter (\<lambda>t. sourceOf t = ?k) seen = []"
    by (simp add: filter_empty_conv)
  have m: "map_of (setProp ?k [task] (setProp ?k [] groups)) = (map_of groups)(?k \<mapsto> [task])"
    by (simp add: map_of_setProp)
  have ks: "map fst (setProp ?k [task] (setProp ?k [] groups)) = map fst groups @ [?k]"
    using notin by (simp add: keys_setProp key_set_setProp)
  have ms: "mset (concat (map snd (setProp ?k [task] (setProp ?k [] groups)))) = mset seen + {#task#}"
    using mset_setProp_old [of "setProp ?k [] groups" ?k "[]" "[task]"] notin assms(1)
    by (simp add: map_of_setProp concat_setProp_new grouped_def)
  have "grouped (setProp ?k [task] (setProp ?k [] groups)) (seen @ [task])"
    unfolding grouped_def
  proof (intro conjI allI impI)
    show "distinct (map fst (setProp ?k [task] (setProp ?k [] groups)))"
      using assms(1) notin by (simp add: ks grouped_def)
    show "set (map fst (setProp ?k [task] (setProp ?k [] groups))) = sourceOf ` set (seen @ [task])"
      using keys by (auto simp: ks)
    show "mset (concat (map snd (setProp ?k [task] (setProp ?k [] groups)))) = mset (seen @ [task])"
      by (simp add: ms)
  next
    fix k ts
    assume "map_of (setProp ?k [task] (setProp ?k [] groups)) k = Some ts"
    then show "ts = filter (\<lambda>t. sourceOf t = k) (seen @ [task])"
      using assms(1) nofilter by (auto simp: m grouped_def split: if_splits)
  qed
  with step show ?thesis by blast
next
  case (Some old)
  let ?k = "sourceOf task"
  from Some have isin: "?k \<in> fst ` set groups"
    by (metis map_of_eq_None_iff option.distinct(1))
  have step: "groupStep groups task = Inr (setProp ?k (old @ [task]) groups)"
    using Some by (simp add: groupStep_def getProp_def Let_def)
  have ms: "mset (concat (map snd (setProp ?k (old @ [task]) groups))) = mset seen + {#task#}"
    using mset_setProp_old [OF Some, of "old @ [task]"] assms(1)
    by (simp add: grouped_def)
  have "grouped (setProp ?k (old @ [task]) groups) (seen @ [task])"
    unfolding grouped_def
  proof (intro conjI allI impI)
    show "distinct (map fst (setProp ?k (old @ [task]) groups))"
      using assms(1) isin by (simp add: keys_setProp grouped_def)
    show "set (map fst (setProp ?k (old @ [task]) groups)) = sourceOf ` set (seen @ [task])"
      using assms(1) isin by (auto simp: keys_setProp grouped_def)
    show "mset (concat (map snd (setProp ?k (old @ [task]) groups))) = mset (seen @ [task])"
      by (simp add: ms)
  next
    fix k ts
    assume "map_of (setProp ?k (old @ [task]) groups) k = Some ts"
    then show "ts = filter (\<lambda>t. sourceOf t = k) (seen @ [task])"
      using assms(1) Some by (auto simp: map_of_setProp grouped_def split: if_splits)
  qed
  with step show ?thesis by blast
qed

lemma reduce_grouped:
  assumes "grouped groups seen" and "\<forall>t\<in>set tasks. sourceOf t \<notin> set objectPrototypeKeys"
  shows "\<exists>groups'. reduce groupStep tasks groups = Inr groups' \<and> grouped groups' (seen @ tasks)"
  using assms
proof (induction tasks arbitrary: groups seen)
  case Nil
  then show ?case by simp
next
  case (Cons t tasks)
  from Cons.prems obtain g1 where g1: "groupStep groups t = Inr g1" "grouped g1 (seen @ [t])"
    using groupStep_grouped by force
  from Cons.IH [OF g1(2)] Cons.prems(2) g1(1) show ?case by simp
qed

lemma grouped_member:
  assumes "grouped groups tasks" and "(k, ts) \<in> set groups"
  shows "ts = filter (\<lambda>t. sourceOf t = k) tasks"
  using assms by (simp add: grouped_def)

lemma groupTasksBySource_partition:
  assumes "\<forall>t\<in>set tasks. sourceOf t \<notin> set objectPrototypeKeys"
  shows "\<exists>groups. groupTasksBySource tasks = Inr groups \<and>
           distinct (map fst groups) \<and>
           (\<forall>(k, ts)\<in>set groups. ts = filter (\<lambda>t. sourceOf t = k) tasks) \<and>
           (\<forall>t\<in>set tasks. \<exists>!g. g \<in> set groups \<and> t \<in> set (snd g)) \<and>
           (\<forall>t\<in>set tasks. \<forall>g\<in>set groups. t \<in> set (snd g) \<longrightarrow> fst g = sourceOf t) \<and>
           mset (concat (map snd groups)) = mset tasks"
proof -
  have "grouped [] []" by (simp add: grouped_def)
  from reduce_grouped [OF this assms] obtain groups
    where g: "groupTasksBySource tasks = Inr groups" "grouped groups tasks"
    by (auto simp: groupTasksBySource_def)
  have mem: "\<And>k ts. (k, ts) \<in> set groups \<Longrightarrow> ts = filter (\<lambda>t. sourceOf t = k) tasks"
    using grouped_member [OF g(2)] .
  have d: "distinct (map fst groups)" using g(2) by (simp add: grouped_def)
  have keyed: "fst g = sourceOf t" if "g \<in> set groups" "t \<in> set (snd g)" for t g
  proof -
    from that(1) have "snd g = filter (\<lambda>t. sourceOf t = fst g) tasks"
      using mem [of "fst g" "snd g"] by simp
    with that(2) have "t \<in> set (filter (\<lambda>t. sourceOf t = fst g) tasks)" by simp
    then show ?thesis by simp
  qed
  have ex: "\<exists>g. g \<in> set groups \<and> t \<in> set (snd g)" if "t \<in> set tasks" for t
  proof -
    from that g(2) have "sourceOf t \<in> fst ` set groups" by (simp add: grouped_def)
    then obtain ts where in_g: "(sourceOf t, ts) \<in> set groups" by force
    from mem [OF in_g] that have "t \<in> set ts" by simp
    with in_g show ?thesis by force
  qed
  have uniq: "g = g'"
    if "g \<in> set groups" "g' \<in> set groups" "t \<in> set (snd g)" "t \<in> set (snd g')" for g g' t
  proof -
    obtain k ts where g: "g = (k, ts)" by (cases g)
    obtain k' ts' where g': "g' = (k', ts')" by (cases g')
    from that keyed [of g t] keyed [of g' t] have "k = k'" by (simp add: g g')
    with d that(1,2) show ?thesis
      using eq_key_imp_eq_value [of groups k ts ts'] by (simp add: g g')
  qed
  have one: "\<forall>t\<in>set tasks. \<exists>!g. g \<in> set groups \<and> t \<in> set (snd g)"
    using ex uniq by blast
  have filt: "\<forall>(k, ts)\<in>set groups. ts = filter (\<lambda>t. sourceOf t = k) tasks"
    using mem by blast
  have key: "\<forall>t\<in>set tasks. \<forall>g\<in>set groups. t \<in> set (snd g) \<longrightarrow> fst g = sourceOf t"
    using keyed by blast
  have ms: "mset (concat (map snd groups)) = mset tasks"
    using g(2) by (simp add: grouped_def)
  from g(1) d filt one key ms show ?thesis by (intro exI [of _ groups] conjI)
qed

lemma groupTasksBySource_example:
  "groupTasksBySource
     [\<lparr>task_name = ''build'', task_source = Some ''/work/mise.toml'', task_description = []\<rparr>,
      \<lparr>task_name = ''lint'', task_source = None, task_description = []\<rparr>,
      \<lparr>task_name = ''test'', task_source = Some ''/work/mise.toml'', task_description = []\<rparr>,
      \<lparr>task_name = ''fmt'', task_source = Some [], task_description = []\<rparr>] =
   Inr [(''/work/mise.toml'',
         [\<lparr>task_name = ''build'', task_source = Some ''/work/mise.toml'', task_description = []\<rparr>,
          \<lparr>task_name = ''test'', task_source = Some ''/work/mise.toml'', task_description = []\<rparr>]),
        (''Unknown'',
         [\<lparr>task_name = ''lint'', task_source = None, task_description = []\<rparr>,
          \<lparr>task_name = ''fmt'', task_source = Some [], task_description = []\<rparr>])]"
  by (simp add: groupTasksBySource_def groupStep_def getProp_def sourceOf_def
        objectPrototypeKeys_def Let_def)

text \<open>
  C1. The grouping is to put every task into the one group of its source and to lose or
  repeat none. The code does so (\<open>groupTasksBySource_partition\<close>) unless a source is the
  name of a member that the accumulator \<open>{}\<close> inherits: for a task whose source is
  \<open>constructor\<close> the lookup \<open>groups[source]\<close> finds the inherited member, no array is
  created, \<open>push\<close> is not a function, and the whole grouping throws instead of returning
  groups.
\<close>

theorem groupTasksBySource_inherited_key:
  "groupTasksBySource
     [\<lparr>task_name = ''build'', task_source = Some ''constructor'', task_description = []\<rparr>]
   = Inl (TypeError ''groups[source].push is not a function'')"
  by (simp add: groupTasksBySource_def groupStep_def getProp_def sourceOf_def
        objectPrototypeKeys_def)

section \<open>What the collector can call\<close>

lemma prompt_not_invocation: "isPrompt e \<Longrightarrow> \<not> isInvocation e"
  by (cases e) simp_all

lemma prompts_no_message: "list_all isPrompt es \<Longrightarrow> ShowErrorMessage m \<notin> set es"
  by (induction es) auto

lemma prompts_no_invocation: "list_all isPrompt es \<Longrightarrow> filter isInvocation es = []"
  by (induction es) (auto simp: prompt_not_invocation)

lemma collectArg_prompts: "list_all isPrompt (calls (collectArg arg cmdArgs ans))"
  by (simp add: collectArg_def async_defs split: option.splits)

lemma collectFlag_prompts: "list_all isPrompt (calls (collectFlag flag cmdArgs ans))"
  by (simp add: collectFlag_def async_defs split: option.splits)

lemma forEach_prompts:
  assumes "\<And>x s ans. list_all isPrompt (calls (body x s ans))"
  shows "list_all isPrompt (calls (forEach body xs s ans))"
proof (induction xs arbitrary: s ans)
  case Nil
  show ?case by (simp add: async_defs)
next
  case (Cons x xs)
  obtain r a es where b: "body x s ans = (r, a, es)" by (cases "body x s ans")
  with assms [of x s ans] have es: "list_all isPrompt es" by (simp add: calls_def)
  show ?case
  proof (cases r)
    case (Inl e)
    with b es show ?thesis by (simp add: andThen_def calls_def)
  next
    case (Inr s')
    obtain r2 a2 es2 where f: "forEach body xs s' a = (r2, a2, es2)"
      by (cases "forEach body xs s' a")
    with Cons.IH [of s' a] have "list_all isPrompt es2" by (simp add: calls_def)
    with Inr b es f show ?thesis by (simp add: andThen_def calls_def)
  qed
qed

lemma collectArgumentValues_prompts:
  "list_all isPrompt (calls (collectArgumentValues info ans))"
proof -
  obtain r1 a1 es1 where p: "forEach collectArg (args (usageSpec info)) [] ans = (r1, a1, es1)"
    by (cases "forEach collectArg (args (usageSpec info)) [] ans")
  have q1: "list_all isPrompt es1"
    using forEach_prompts [of collectArg "args (usageSpec info)" "[]" ans, OF collectArg_prompts] p
    by (simp add: calls_def)
  show ?thesis
  proof (cases r1)
    case (Inl e)
    with p q1 show ?thesis by (simp add: collectArgumentValues_def async_defs)
  next
    case (Inr c)
    obtain r2 a2 es2 where f: "forEach collectFlag (flags (usageSpec info)) c a1 = (r2, a2, es2)"
      by (cases "forEach collectFlag (flags (usageSpec info)) c a1")
    have "list_all isPrompt es2"
      using forEach_prompts [of collectFlag "flags (usageSpec info)" c a1, OF collectFlag_prompts] f
      by (simp add: calls_def)
    with Inr p q1 f show ?thesis by (simp add: collectArgumentValues_def async_defs)
  qed
qed

lemma forEach_append:
  "forEach body (xs @ ys) s = andThen (forEach body xs s) (forEach body ys)"
  by (induction xs arbitrary: s)
     (auto simp: andThen_def resolve_def fun_eq_iff split: prod.splits sum.splits)

section \<open>The two operations, case by case\<close>

lemma runTask_trivial:
  assumes "getTaskInfo svc taskName = Inr (Some info)"
      and "args (usageSpec info) = []" and "flags (usageSpec info) = []"
  shows "runTask svc taskName ans =
           (Inr (), ans, GetTaskInfo taskName # RunTask taskName [] #
              (case miseService_runTask svc taskName [] of
                 Inl e \<Rightarrow> [ShowErrorMessage (failedToRunTask taskName e)]
               | Inr u \<Rightarrow> []))"
  using assms
  by (simp add: runTask_def runTask_try_def async_defs split: sum.splits)

lemma runTask_collect_failed:
  assumes "getTaskInfo svc taskName = Inr (Some info)"
      and "args (usageSpec info) \<noteq> [] \<or> flags (usageSpec info) \<noteq> []"
      and "collectArgumentValues info ans = (Inl e, ans1, es)"
  shows "runTask svc taskName ans =
           (Inr (), ans1, GetTaskInfo taskName # es @
              [ShowErrorMessage (failedToRunTask taskName e)])"
  using assms
  by (auto simp add: runTask_def runTask_try_def async_defs)

lemma guarded_lookup_rejected:
  assumes "getTaskInfo svc taskName = Inl e"
  shows "watchTask_guarded svc taskName ans =
           (Inr (), ans, [GetTaskInfo taskName,
              ShowErrorMessage (failedToRunTask taskName e)])"
  using assms by (simp add: watchTask_guarded_def watchTask_try_def async_defs)

lemma guarded_not_found:
  assumes "getTaskInfo svc taskName = Inr None"
  shows "watchTask_guarded svc taskName ans =
           (Inr (), ans, [GetTaskInfo taskName,
              ShowErrorMessage (failedToRunTask taskName (taskNotFound taskName))])"
  using assms by (simp add: watchTask_guarded_def watchTask_try_def async_defs)

lemma guarded_trivial:
  assumes "getTaskInfo svc taskName = Inr (Some info)"
      and "args (usageSpec info) = []" and "flags (usageSpec info) = []"
  shows "watchTask_guarded svc taskName ans =
           (Inr (), ans, GetTaskInfo taskName # WatchTask taskName [] #
              (case miseService_watchTask svc taskName [] of
                 Inl e \<Rightarrow> [ShowErrorMessage (failedToRunTask taskName e)]
               | Inr u \<Rightarrow> []))"
  using assms
  by (simp add: watchTask_guarded_def watchTask_try_def async_defs split: sum.splits)

lemma guarded_collect_failed:
  assumes "getTaskInfo svc taskName = Inr (Some info)"
      and "args (usageSpec info) \<noteq> [] \<or> flags (usageSpec info) \<noteq> []"
      and "collectArgumentValues info ans = (Inl e, ans1, es)"
  shows "watchTask_guarded svc taskName ans =
           (Inr (), ans1, GetTaskInfo taskName # es @
              [ShowErrorMessage (failedToRunTask taskName e)])"
  using assms
  by (auto simp add: watchTask_guarded_def watchTask_try_def async_defs)

lemma guarded_collected:
  assumes "getTaskInfo svc taskName = Inr (Some info)"
      and "args (usageSpec info) \<noteq> [] \<or> flags (usageSpec info) \<noteq> []"
      and "collectArgumentValues info ans = (Inr cmdArgs, ans1, es)"
  shows "watchTask_guarded svc taskName ans =
           (Inr (), ans1, GetTaskInfo taskName # es @ WatchTask taskName cmdArgs #
              (case miseService_watchTask svc taskName cmdArgs of
                 Inl e \<Rightarrow> [ShowErrorMessage (failedToRunTask taskName e)]
               | Inr u \<Rightarrow> []))"
  using assms
  by (auto simp add: watchTask_guarded_def watchTask_try_def async_defs split: sum.splits)

lemma find_watchexec:
  "(find (\<lambda>tool. tool_name tool = ''watchexec'') tools = None) =
   (''watchexec'' \<notin> set (map tool_name tools))"
  by (induction tools) simp_all

lemma watchexecFromTools_None:
  "(find (\<lambda>tool. tool_name tool = ''watchexec'') (case res of Inr v \<Rightarrow> v | Inl e \<Rightarrow> []) = None)
   = (\<not> toolsReportWatchexec res)"
  by (cases res) (simp_all add: toolsReportWatchexec_def find_watchexec)

lemma watchexec_empty:
  "((case res of Inr v \<Rightarrow> stdout v | Inl e \<Rightarrow> []) = []) = (\<not> probeReportsWatchexec res)"
  by (cases res) (simp_all add: probeReportsWatchexec_def)

lemma watchTask_absent:
  assumes "\<not> toolsReportWatchexec (getTools svc)"
      and "\<not> probeReportsWatchexec (execAsync ''which watchexec'')"
  shows "watchTask svc execAsync taskName ans =
           (Inr (), ans,
            [GetTools, ExecAsync ''which watchexec'', ShowErrorMessage watchexecRequired])"
  using assms
  by (simp add: watchTask_def async_defs Let_def watchexecFromTools_None watchexec_empty)

lemma watchTask_present:
  assumes "toolsReportWatchexec (getTools svc) \<or>
           probeReportsWatchexec (execAsync ''which watchexec'')"
  shows "watchTask svc execAsync taskName ans =
           (outcome (watchTask_guarded svc taskName ans),
            fst (snd (watchTask_guarded svc taskName ans)),
            GetTools # ExecAsync ''which watchexec'' # calls (watchTask_guarded svc taskName ans))"
proof -
  obtain r a es where g: "watchTask_guarded svc taskName ans = (r, a, es)"
    by (cases "watchTask_guarded svc taskName ans")
  from assms show ?thesis
    by (auto simp add: watchTask_def allSettled_def settled_def andThen_def call_def resolve_def
          outcome_def calls_def Let_def watchexecFromTools_None watchexec_empty g)
qed

lemma failed_is_not_required:
  "ShowErrorMessage (failedToRunTask taskName e) \<noteq> ShowErrorMessage watchexecRequired"
  by (simp add: watchexecRequired_def failedToRunTask_def)

lemma watchTask_guarded_calls:
  "\<exists>es. watchTask_guarded svc taskName ans =
           (Inr (), fst (snd (watchTask_guarded svc taskName ans)), GetTaskInfo taskName # es) \<and>
        ShowErrorMessage watchexecRequired \<notin> set es"
proof (cases "getTaskInfo svc taskName")
  case (Inl e)
  show ?thesis
    using failed_is_not_required [of taskName e]
    by (simp add: guarded_lookup_rejected [OF Inl])
next
  case (Inr found)
  show ?thesis
  proof (cases found)
    case None
    with Inr have nf: "getTaskInfo svc taskName = Inr None" by simp
    show ?thesis
      using failed_is_not_required [of taskName "taskNotFound taskName"]
      by (simp add: guarded_not_found [OF nf])
  next
    case (Some info)
    with Inr have f: "getTaskInfo svc taskName = Inr (Some info)" by simp
    show ?thesis
    proof (cases "args (usageSpec info) = [] \<and> flags (usageSpec info) = []")
      case True
      then have t: "args (usageSpec info) = []" "flags (usageSpec info) = []" by simp_all
      show ?thesis
      proof (cases "miseService_watchTask svc taskName []")
        case (Inl e)
        then show ?thesis
          using failed_is_not_required [of taskName e]
          by (simp add: guarded_trivial [OF f t])
      next
        case (Inr u)
        then show ?thesis by (simp add: guarded_trivial [OF f t])
      qed
    next
      case False
      then have nt: "args (usageSpec info) \<noteq> [] \<or> flags (usageSpec info) \<noteq> []" by simp
      obtain r a es where c: "collectArgumentValues info ans = (r, a, es)"
        by (cases "collectArgumentValues info ans")
      with collectArgumentValues_prompts [of info ans] have p: "list_all isPrompt es"
        by (simp add: calls_def)
      show ?thesis
      proof (cases r)
        case (Inl e)
        with c have c': "collectArgumentValues info ans = (Inl e, a, es)" by simp
        show ?thesis
          using prompts_no_message [OF p] failed_is_not_required [of taskName e]
          by (simp add: guarded_collect_failed [OF f nt c'])
      next
        case (Inr cmdArgs)
        with c have c': "collectArgumentValues info ans = (Inr cmdArgs, a, es)" by simp
        show ?thesis
        proof (cases "miseService_watchTask svc taskName cmdArgs")
          case (Inl e)
          then show ?thesis
            using prompts_no_message [OF p] failed_is_not_required [of taskName e]
            by (simp add: guarded_collected [OF f nt c'])
        next
          case (Inr u)
          then show ?thesis
            using prompts_no_message [OF p]
            by (simp add: guarded_collected [OF f nt c'])
        qed
      qed
    qed
  qed
qed

section \<open>The watch prerequisite\<close>

lemma watchTask_invokes_plain:
  assumes "toolsReportWatchexec (getTools svc) \<or>
           probeReportsWatchexec (execAsync ''which watchexec'')"
      and "getTaskInfo svc taskName = Inr (Some info)"
      and "args (usageSpec info) = []" and "flags (usageSpec info) = []"
  shows "watchTask svc execAsync taskName ans =
           (Inr (), ans,
            GetTools # ExecAsync ''which watchexec'' # GetTaskInfo taskName #
            WatchTask taskName [] #
              (case miseService_watchTask svc taskName [] of
                 Inl e \<Rightarrow> [ShowErrorMessage (failedToRunTask taskName e)]
               | Inr u \<Rightarrow> []))"
  by (simp add: watchTask_present [of svc execAsync, OF assms(1)]
        guarded_trivial [OF assms(2,3,4)] calls_def outcome_def)

lemma watchTask_invokes_collected:
  assumes "toolsReportWatchexec (getTools svc) \<or>
           probeReportsWatchexec (execAsync ''which watchexec'')"
      and "getTaskInfo svc taskName = Inr (Some info)"
      and "args (usageSpec info) \<noteq> [] \<or> flags (usageSpec info) \<noteq> []"
      and "collectArgumentValues info ans = (Inr cmdArgs, ans1, es)"
  shows "watchTask svc execAsync taskName ans =
           (Inr (), ans1,
            GetTools # ExecAsync ''which watchexec'' # GetTaskInfo taskName # es @
            WatchTask taskName cmdArgs #
              (case miseService_watchTask svc taskName cmdArgs of
                 Inl e \<Rightarrow> [ShowErrorMessage (failedToRunTask taskName e)]
               | Inr u \<Rightarrow> []))"
  by (simp add: watchTask_present [of svc execAsync, OF assms(1)]
        guarded_collected [OF assms(2,3,4)] calls_def outcome_def)

lemma watchTask_invokes_once:
  assumes "toolsReportWatchexec (getTools svc) \<or>
           probeReportsWatchexec (execAsync ''which watchexec'')"
      and "getTaskInfo svc taskName = Inr (Some info)"
      and "args (usageSpec info) \<noteq> [] \<or> flags (usageSpec info) \<noteq> []"
      and "collectArgumentValues info ans = (Inr cmdArgs, ans1, es)"
  shows "filter isInvocation (calls (watchTask svc execAsync taskName ans)) =
           [WatchTask taskName cmdArgs]"
proof -
  have "list_all isPrompt es"
    using collectArgumentValues_prompts [of info ans] assms(4) by (simp add: calls_def)
  then have "filter isInvocation es = []" by (rule prompts_no_invocation)
  then show ?thesis
    by (simp add: watchTask_invokes_collected [of svc execAsync, OF assms] calls_def split: sum.splits)
qed


lemma watchTask_gate:
  "(\<not> toolsReportWatchexec (getTools svc) \<and>
    \<not> probeReportsWatchexec (execAsync ''which watchexec'') \<longrightarrow>
      watchTask svc execAsync taskName ans =
        (Inr (), ans,
         [GetTools, ExecAsync ''which watchexec'', ShowErrorMessage watchexecRequired])) \<and>
   (toolsReportWatchexec (getTools svc) \<or>
    probeReportsWatchexec (execAsync ''which watchexec'') \<longrightarrow>
      calls (watchTask svc execAsync taskName ans) =
        GetTools # ExecAsync ''which watchexec'' # calls (watchTask_guarded svc taskName ans) \<and>
      hd (calls (watchTask_guarded svc taskName ans)) = GetTaskInfo taskName) \<and>
   (ShowErrorMessage watchexecRequired \<in> set (calls (watchTask svc execAsync taskName ans)) \<longleftrightarrow>
      \<not> toolsReportWatchexec (getTools svc) \<and>
      \<not> probeReportsWatchexec (execAsync ''which watchexec'')) \<and>
   outcome (watchTask svc execAsync taskName ans) = Inr ()"
proof (cases "toolsReportWatchexec (getTools svc) \<or>
              probeReportsWatchexec (execAsync ''which watchexec'')")
  case True
  obtain es where g: "watchTask_guarded svc taskName ans =
        (Inr (), fst (snd (watchTask_guarded svc taskName ans)), GetTaskInfo taskName # es)"
      and no: "ShowErrorMessage watchexecRequired \<notin> set es"
    using watchTask_guarded_calls [of svc taskName ans] by blast
  have c: "calls (watchTask_guarded svc taskName ans) = GetTaskInfo taskName # es"
    using g by (metis calls_def snd_conv)
  have o: "outcome (watchTask_guarded svc taskName ans) = Inr ()"
    using g by (metis outcome_def fst_conv)
  from True no show ?thesis
    by (simp add: watchTask_present [of svc execAsync, OF True] c o) (simp add: calls_def outcome_def)
next
  case False
  then have a: "\<not> toolsReportWatchexec (getTools svc)"
    and b: "\<not> probeReportsWatchexec (execAsync ''which watchexec'')" by simp_all
  show ?thesis
    using a b by (simp add: watchTask_absent [of svc execAsync, OF a b] calls_def outcome_def)
qed

text \<open>
  C2. \<open>watchTask\<close> stops with the notification that \<open>watchexec\<close> is required, having made
  the two probes and nothing else, exactly when neither the tool listing nor the shell
  probe reports \<open>watchexec\<close>. When either reports it, the two probes are followed by the
  \<open>try\<close> statement, which starts with the lookup of the task; and once the task is found
  and its arguments are collected (or it takes none), the backend's watch operation is
  called, once, with the task and those arguments. A probe that rejects counts as one that
  reports nothing, and \<open>watchTask\<close> fulfils in every case.
\<close>

theorem watchTask_prerequisite:
  "(\<not> toolsReportWatchexec (getTools svc) \<and>
    \<not> probeReportsWatchexec (execAsync ''which watchexec'') \<longrightarrow>
      watchTask svc execAsync taskName ans =
        (Inr (), ans,
         [GetTools, ExecAsync ''which watchexec'', ShowErrorMessage watchexecRequired])) \<and>
   (toolsReportWatchexec (getTools svc) \<or>
    probeReportsWatchexec (execAsync ''which watchexec'') \<longrightarrow>
      calls (watchTask svc execAsync taskName ans) =
        GetTools # ExecAsync ''which watchexec'' # calls (watchTask_guarded svc taskName ans) \<and>
      hd (calls (watchTask_guarded svc taskName ans)) = GetTaskInfo taskName) \<and>
   (ShowErrorMessage watchexecRequired \<in> set (calls (watchTask svc execAsync taskName ans)) \<longleftrightarrow>
      \<not> toolsReportWatchexec (getTools svc) \<and>
      \<not> probeReportsWatchexec (execAsync ''which watchexec'')) \<and>
   outcome (watchTask svc execAsync taskName ans) = Inr () \<and>
   (toolsReportWatchexec (getTools svc) \<or>
    probeReportsWatchexec (execAsync ''which watchexec'') \<longrightarrow>
    getTaskInfo svc taskName = Inr (Some info) \<longrightarrow>
    args (usageSpec info) = [] \<and> flags (usageSpec info) = [] \<longrightarrow>
      watchTask svc execAsync taskName ans =
        (Inr (), ans,
         GetTools # ExecAsync ''which watchexec'' # GetTaskInfo taskName #
         WatchTask taskName [] #
           (case miseService_watchTask svc taskName [] of
              Inl e \<Rightarrow> [ShowErrorMessage (failedToRunTask taskName e)]
            | Inr u \<Rightarrow> [])) \<and>
      filter isInvocation (calls (watchTask svc execAsync taskName ans)) =
        [WatchTask taskName []]) \<and>
   (toolsReportWatchexec (getTools svc) \<or>
    probeReportsWatchexec (execAsync ''which watchexec'') \<longrightarrow>
    getTaskInfo svc taskName = Inr (Some info) \<longrightarrow>
    args (usageSpec info) \<noteq> [] \<or> flags (usageSpec info) \<noteq> [] \<longrightarrow>
    collectArgumentValues info ans = (Inr cmdArgs, ans1, es) \<longrightarrow>
      watchTask svc execAsync taskName ans =
        (Inr (), ans1,
         GetTools # ExecAsync ''which watchexec'' # GetTaskInfo taskName # es @
         WatchTask taskName cmdArgs #
           (case miseService_watchTask svc taskName cmdArgs of
              Inl e \<Rightarrow> [ShowErrorMessage (failedToRunTask taskName e)]
            | Inr u \<Rightarrow> [])) \<and>
      filter isInvocation (calls (watchTask svc execAsync taskName ans)) =
        [WatchTask taskName cmdArgs])"
proof -
  let ?present = "toolsReportWatchexec (getTools svc) \<or>
                  probeReportsWatchexec (execAsync ''which watchexec'')"
  note gate = watchTask_gate [of svc execAsync taskName ans]
  have plain:
    "?present \<longrightarrow> getTaskInfo svc taskName = Inr (Some info) \<longrightarrow>
     args (usageSpec info) = [] \<and> flags (usageSpec info) = [] \<longrightarrow>
       watchTask svc execAsync taskName ans =
         (Inr (), ans,
          GetTools # ExecAsync ''which watchexec'' # GetTaskInfo taskName #
          WatchTask taskName [] #
            (case miseService_watchTask svc taskName [] of
               Inl e \<Rightarrow> [ShowErrorMessage (failedToRunTask taskName e)]
             | Inr u \<Rightarrow> [])) \<and>
       filter isInvocation (calls (watchTask svc execAsync taskName ans)) =
         [WatchTask taskName []]"
  proof (intro impI, elim conjE)
    assume p: ?present and i: "getTaskInfo svc taskName = Inr (Some info)"
      and a: "args (usageSpec info) = []" and f: "flags (usageSpec info) = []"
    note w = watchTask_invokes_plain [of svc execAsync, OF p i a f, of ans]
    have "filter isInvocation (calls (watchTask svc execAsync taskName ans)) =
            [WatchTask taskName []]"
      by (simp add: w calls_def split: sum.splits)
    with w show "watchTask svc execAsync taskName ans =
         (Inr (), ans,
          GetTools # ExecAsync ''which watchexec'' # GetTaskInfo taskName #
          WatchTask taskName [] #
            (case miseService_watchTask svc taskName [] of
               Inl e \<Rightarrow> [ShowErrorMessage (failedToRunTask taskName e)]
             | Inr u \<Rightarrow> [])) \<and>
       filter isInvocation (calls (watchTask svc execAsync taskName ans)) =
         [WatchTask taskName []]" by (intro conjI)
  qed
  have collected:
    "?present \<longrightarrow> getTaskInfo svc taskName = Inr (Some info) \<longrightarrow>
     args (usageSpec info) \<noteq> [] \<or> flags (usageSpec info) \<noteq> [] \<longrightarrow>
     collectArgumentValues info ans = (Inr cmdArgs, ans1, es) \<longrightarrow>
       watchTask svc execAsync taskName ans =
         (Inr (), ans1,
          GetTools # ExecAsync ''which watchexec'' # GetTaskInfo taskName # es @
          WatchTask taskName cmdArgs #
            (case miseService_watchTask svc taskName cmdArgs of
               Inl e \<Rightarrow> [ShowErrorMessage (failedToRunTask taskName e)]
             | Inr u \<Rightarrow> [])) \<and>
       filter isInvocation (calls (watchTask svc execAsync taskName ans)) =
         [WatchTask taskName cmdArgs]"
  proof (intro impI)
    assume p: ?present and i: "getTaskInfo svc taskName = Inr (Some info)"
      and n: "args (usageSpec info) \<noteq> [] \<or> flags (usageSpec info) \<noteq> []"
      and c: "collectArgumentValues info ans = (Inr cmdArgs, ans1, es)"
    from watchTask_invokes_collected [of svc execAsync, OF p i n c]
         watchTask_invokes_once [of svc execAsync, OF p i n c]
    show "watchTask svc execAsync taskName ans =
         (Inr (), ans1,
          GetTools # ExecAsync ''which watchexec'' # GetTaskInfo taskName # es @
          WatchTask taskName cmdArgs #
            (case miseService_watchTask svc taskName cmdArgs of
               Inl e \<Rightarrow> [ShowErrorMessage (failedToRunTask taskName e)]
             | Inr u \<Rightarrow> [])) \<and>
       filter isInvocation (calls (watchTask svc execAsync taskName ans)) =
         [WatchTask taskName cmdArgs]" by (intro conjI)
  qed
  from gate plain collected show ?thesis by (elim conjE, intro conjI)
qed

theorem watchTask_prerequisite_witness:
  "\<not> toolsReportWatchexec (getTools (idleService\<lparr>getTools := Inl (Error ''boom'')\<rparr>)) \<and>
   \<not> probeReportsWatchexec (whichFails ''which watchexec'') \<and>
   watchTask (idleService\<lparr>getTools := Inl (Error ''boom'')\<rparr>) whichFails ''build'' [] =
     (Inr (), [],
      [GetTools, ExecAsync ''which watchexec'', ShowErrorMessage watchexecRequired]) \<and>
   probeReportsWatchexec (whichFinds ''which watchexec'') \<and>
   getTaskInfo (idleService\<lparr>getTools := Inl (Error ''boom''),
                            getTaskInfo := (\<lambda>taskName. Inr (Some deployInfo))\<rparr>) ''deploy'' =
     Inr (Some deployInfo) \<and>
   args (usageSpec deployInfo) \<noteq> [] \<and>
   collectArgumentValues deployInfo
     [Some ''src'', Some ''a.txt'', Some ''Yes'', Some ''prod'', Some ''No''] =
     (Inr [''src'', ''a.txt'', ''--env'', ''prod''], [],
      [CallCollectArgumentValues,
       ShowInputBox ''Enter value for dir'' ''dir'' (Some ''src''),
       ShowInputBox ''Enter value for file'' ''file'' (Some ''a.txt''),
       ShowQuickPick ''Do you want to provide --env?'' (Some ''Yes''),
       ShowInputBox ''Enter value for --env'' ''<name>'' (Some ''prod''),
       ShowQuickPick ''Enable --verbose?'' (Some ''No'')]) \<and>
   watchTask
     (idleService\<lparr>getTools := Inl (Error ''boom''),
                   getTaskInfo := (\<lambda>taskName. Inr (Some deployInfo))\<rparr>)
     whichFinds ''deploy''
     [Some ''src'', Some ''a.txt'', Some ''Yes'', Some ''prod'', Some ''No''] =
     (Inr (), [],
      [GetTools, ExecAsync ''which watchexec'', GetTaskInfo ''deploy'',
       CallCollectArgumentValues,
       ShowInputBox ''Enter value for dir'' ''dir'' (Some ''src''),
       ShowInputBox ''Enter value for file'' ''file'' (Some ''a.txt''),
       ShowQuickPick ''Do you want to provide --env?'' (Some ''Yes''),
       ShowInputBox ''Enter value for --env'' ''<name>'' (Some ''prod''),
       ShowQuickPick ''Enable --verbose?'' (Some ''No''),
       WatchTask ''deploy'' [''src'', ''a.txt'', ''--env'', ''prod'']]) \<and>
   filter isInvocation
     (calls (watchTask
        (idleService\<lparr>getTools := Inl (Error ''boom''),
                      getTaskInfo := (\<lambda>taskName. Inr (Some deployInfo))\<rparr>)
        whichFinds ''deploy''
        [Some ''src'', Some ''a.txt'', Some ''Yes'', Some ''prod'', Some ''No''])) =
     [WatchTask ''deploy'' [''src'', ''a.txt'', ''--env'', ''prod'']]"
proof -
  let ?svc = "idleService\<lparr>getTools := Inl (Error ''boom''),
                getTaskInfo := (\<lambda>taskName. Inr (Some deployInfo))\<rparr>"
  let ?ans = "[Some ''src'', Some ''a.txt'', Some ''Yes'', Some ''prod'', Some ''No'']"
  let ?es = "[CallCollectArgumentValues,
       ShowInputBox ''Enter value for dir'' ''dir'' (Some ''src''),
       ShowInputBox ''Enter value for file'' ''file'' (Some ''a.txt''),
       ShowQuickPick ''Do you want to provide --env?'' (Some ''Yes''),
       ShowInputBox ''Enter value for --env'' ''<name>'' (Some ''prod''),
       ShowQuickPick ''Enable --verbose?'' (Some ''No'')]"
  have absent1: "\<not> toolsReportWatchexec (getTools (idleService\<lparr>getTools := Inl (Error ''boom'')\<rparr>))"
    by (simp add: toolsReportWatchexec_def)
  have absent2: "\<not> probeReportsWatchexec (whichFails ''which watchexec'')"
    by (simp add: probeReportsWatchexec_def whichFails_def)
  have present: "toolsReportWatchexec (getTools ?svc) \<or>
                 probeReportsWatchexec (whichFinds ''which watchexec'')"
    by (simp add: probeReportsWatchexec_def whichFinds_def)
  have found: "probeReportsWatchexec (whichFinds ''which watchexec'')"
    by (simp add: probeReportsWatchexec_def whichFinds_def)
  have info: "getTaskInfo ?svc ''deploy'' = Inr (Some deployInfo)" by simp
  have nonempty: "args (usageSpec deployInfo) \<noteq> []" by (simp add: deployInfo_def)
  have collect: "collectArgumentValues deployInfo ?ans =
                   (Inr [''src'', ''a.txt'', ''--env'', ''prod''], [], ?es)"
    by (simp add: deployInfo_def collectArgumentValues_def collectArg_def collectFlag_def
          async_defs nextAnswer_def)
  have service: "miseService_watchTask ?svc ''deploy'' [''src'', ''a.txt'', ''--env'', ''prod''] = Inr ()"
    by (simp add: idleService_def)
  note gate = watchTask_prerequisite
      [of "idleService\<lparr>getTools := Inl (Error ''boom'')\<rparr>" whichFails "''build''" "[]"]
  note invoke = watchTask_prerequisite
      [of ?svc whichFinds "''deploy''" ?ans deployInfo
          "[''src'', ''a.txt'', ''--env'', ''prod'']" "[]" ?es]
  from gate absent1 absent2
  have stop: "watchTask (idleService\<lparr>getTools := Inl (Error ''boom'')\<rparr>) whichFails ''build'' [] =
     (Inr (), [],
      [GetTools, ExecAsync ''which watchexec'', ShowErrorMessage watchexecRequired])"
    by blast
  from invoke present info nonempty collect
  have go: "watchTask ?svc whichFinds ''deploy'' ?ans =
        (Inr (), [],
         GetTools # ExecAsync ''which watchexec'' # GetTaskInfo ''deploy'' # ?es @
         WatchTask ''deploy'' [''src'', ''a.txt'', ''--env'', ''prod''] #
           (case miseService_watchTask ?svc ''deploy'' [''src'', ''a.txt'', ''--env'', ''prod''] of
              Inl e \<Rightarrow> [ShowErrorMessage (failedToRunTask ''deploy'' e)]
            | Inr u \<Rightarrow> [])) \<and>
      filter isInvocation (calls (watchTask ?svc whichFinds ''deploy'' ?ans)) =
        [WatchTask ''deploy'' [''src'', ''a.txt'', ''--env'', ''prod'']]"
    by blast
  from go service have go': "watchTask ?svc whichFinds ''deploy'' ?ans =
        (Inr (), [],
         [GetTools, ExecAsync ''which watchexec'', GetTaskInfo ''deploy'',
       CallCollectArgumentValues,
       ShowInputBox ''Enter value for dir'' ''dir'' (Some ''src''),
       ShowInputBox ''Enter value for file'' ''file'' (Some ''a.txt''),
       ShowQuickPick ''Do you want to provide --env?'' (Some ''Yes''),
       ShowInputBox ''Enter value for --env'' ''<name>'' (Some ''prod''),
       ShowQuickPick ''Enable --verbose?'' (Some ''No''),
       WatchTask ''deploy'' [''src'', ''a.txt'', ''--env'', ''prod'']])"
    by simp
  from go have once: "filter isInvocation (calls (watchTask ?svc whichFinds ''deploy'' ?ans)) =
        [WatchTask ''deploy'' [''src'', ''a.txt'', ''--env'', ''prod'']]" by blast
  from absent1 absent2 stop found info nonempty collect go' once show ?thesis
    by (intro conjI)
qed

section \<open>A required argument without a value\<close>

lemma collectArg_required_empty:
  assumes "arg_required a" and "truthyValue (nextAnswer ans) = None"
  shows "collectArg a cmdArgs ans =
           (Inl (Error (''Required argument '' @ arg_name a @ '' was not provided'')), tl ans,
            [ShowInputBox (''Enter value for '' @ arg_name a) (arg_name a) (nextAnswer ans)])"
  using assms by (simp add: collectArg_def async_defs)

lemma collectArgumentValues_required_empty:
  assumes "args (usageSpec info) = pre @ a # post"
      and "arg_required a"
      and "forEach collectArg pre [] ans = (Inr collected, ans1, es1)"
      and "truthyValue (nextAnswer ans1) = None"
  shows "collectArgumentValues info ans =
           (Inl (Error (''Required argument '' @ arg_name a @ '' was not provided'')), tl ans1,
            CallCollectArgumentValues # es1 @
            [ShowInputBox (''Enter value for '' @ arg_name a) (arg_name a) (nextAnswer ans1)])"
proof -
  have "forEach collectArg (pre @ a # post) [] ans =
          (Inl (Error (''Required argument '' @ arg_name a @ '' was not provided'')), tl ans1,
           es1 @ [ShowInputBox (''Enter value for '' @ arg_name a) (arg_name a) (nextAnswer ans1)])"
    by (simp add: forEach_append andThen_def assms(3)
          collectArg_required_empty [OF assms(2) assms(4)])
  then show ?thesis
    by (simp add: collectArgumentValues_def assms(1) andThen_def call_def)
qed

text \<open>
  C3. Let the prompts for the positional arguments before \<open>a\<close> have gone through, and let
  the prompt for the required argument \<open>a\<close> be dismissed or answered with the empty text.
  Then \<open>collectArgumentValues\<close> throws the error naming \<open>a\<close>; \<open>runTask\<close> and \<open>watchTask\<close>
  make no call that starts a task, so the values collected before go nowhere; \<open>runTask\<close>
  ends with the notification of that error; and both fulfil.
\<close>

theorem required_argument_missing:
  assumes "args (usageSpec info) = pre @ a # post"
      and "arg_required a"
      and "forEach collectArg pre [] ans = (Inr collected, ans1, es1)"
      and "truthyValue (nextAnswer ans1) = None"
      and "getTaskInfo svc taskName = Inr (Some info)"
  shows "outcome (collectArgumentValues info ans) =
           Inl (Error (''Required argument '' @ arg_name a @ '' was not provided'')) \<and>
         filter isInvocation (calls (runTask svc taskName ans)) = [] \<and>
         last (calls (runTask svc taskName ans)) =
           ShowErrorMessage (''Failed to run task '' @ quoted taskName @
             '': Error: Required argument '' @ arg_name a @ '' was not provided'') \<and>
         outcome (runTask svc taskName ans) = Inr () \<and>
         filter isInvocation (calls (watchTask svc execAsync taskName ans)) = [] \<and>
         outcome (watchTask svc execAsync taskName ans) = Inr ()"
proof -
  let ?e = "Error (''Required argument '' @ arg_name a @ '' was not provided'')"
  let ?es = "CallCollectArgumentValues # es1 @
     [ShowInputBox (''Enter value for '' @ arg_name a) (arg_name a) (nextAnswer ans1)]"
  have c: "collectArgumentValues info ans = (Inl ?e, tl ans1, ?es)"
    using collectArgumentValues_required_empty [OF assms(1-4)] .
  have nt: "args (usageSpec info) \<noteq> [] \<or> flags (usageSpec info) \<noteq> []"
    using assms(1) by simp
  have p: "list_all isPrompt ?es"
    using collectArgumentValues_prompts [of info ans] c by (simp add: calls_def)
  have q: "filter isInvocation ?es = []"
    using prompts_no_invocation [OF p] .
  have r: "runTask svc taskName ans =
             (Inr (), tl ans1, GetTaskInfo taskName # ?es @
                [ShowErrorMessage (failedToRunTask taskName ?e)])"
    using runTask_collect_failed [OF assms(5) nt c] .
  have g: "watchTask_guarded svc taskName ans =
             (Inr (), tl ans1, GetTaskInfo taskName # ?es @
                [ShowErrorMessage (failedToRunTask taskName ?e)])"
    using guarded_collect_failed [OF assms(5) nt c] .
  have w: "filter isInvocation (calls (watchTask svc execAsync taskName ans)) = [] \<and>
           outcome (watchTask svc execAsync taskName ans) = Inr ()"
  proof (cases "toolsReportWatchexec (getTools svc) \<or>
                probeReportsWatchexec (execAsync ''which watchexec'')")
    case True
    show ?thesis
      using q by (simp add: watchTask_present [of svc execAsync, OF True] g calls_def outcome_def)
  next
    case False
    then have a: "\<not> toolsReportWatchexec (getTools svc)"
      and b: "\<not> probeReportsWatchexec (execAsync ''which watchexec'')" by simp_all
    show ?thesis
      by (simp add: watchTask_absent [of svc execAsync, OF a b] calls_def outcome_def)
  qed
  have "outcome (collectArgumentValues info ans) = Inl ?e"
    by (simp add: c outcome_def)
  moreover have "filter isInvocation (calls (runTask svc taskName ans)) = []"
    using q by (simp add: r calls_def)
  moreover have "last (calls (runTask svc taskName ans)) =
      ShowErrorMessage (''Failed to run task '' @ quoted taskName @
             '': Error: Required argument '' @ arg_name a @ '' was not provided'')"
    by (simp add: r calls_def failedToRunTask_def)
  moreover have "outcome (runTask svc taskName ans) = Inr ()"
    by (simp add: r outcome_def)
  ultimately show ?thesis using w by simp
qed

theorem required_argument_missing_witness:
  "args (usageSpec deployInfo) =
     [\<lparr>arg_name = ''dir'', arg_required = False\<rparr>] @ \<lparr>arg_name = ''file'', arg_required = True\<rparr> # [] \<and>
   arg_required \<lparr>arg_name = ''file'', arg_required = True\<rparr> \<and>
   forEach collectArg [\<lparr>arg_name = ''dir'', arg_required = False\<rparr>] [] [Some ''src'', None, Some ''Yes''] =
     (Inr [''src''], [None, Some ''Yes''], [ShowInputBox ''Enter value for dir'' ''dir'' (Some ''src'')]) \<and>
   truthyValue (nextAnswer [None, Some ''Yes'']) = None \<and>
   outcome (collectArgumentValues deployInfo [Some ''src'', None, Some ''Yes'']) =
     Inl (Error ''Required argument file was not provided'') \<and>
   calls (runTask (idleService\<lparr>getTaskInfo := (\<lambda>taskName. Inr (Some deployInfo))\<rparr>) ''deploy''
            [Some ''src'', None, Some ''Yes'']) =
     [GetTaskInfo ''deploy'', CallCollectArgumentValues,
      ShowInputBox ''Enter value for dir'' ''dir'' (Some ''src''),
      ShowInputBox ''Enter value for file'' ''file'' None,
      ShowErrorMessage
        ''Failed to run task 'deploy': Error: Required argument file was not provided'']"
  using required_argument_missing
    [of deployInfo "[\<lparr>arg_name = ''dir'', arg_required = False\<rparr>]"
        "\<lparr>arg_name = ''file'', arg_required = True\<rparr>" "[]"
        "[Some ''src'', None, Some ''Yes'']" "[''src'']" "[None, Some ''Yes'']"
        "[ShowInputBox ''Enter value for dir'' ''dir'' (Some ''src'')]"
        "idleService\<lparr>getTaskInfo := (\<lambda>taskName. Inr (Some deployInfo))\<rparr>" "''deploy''" whichFinds]
  by (simp add: example_defs model_defs async_defs)

section \<open>A task without arguments and flags\<close>

text \<open>
  C4. For a task whose usage specification has neither arguments nor flags, \<open>runTask\<close>
  looks the task up and calls the backend's run operation with no further argument;
  \<open>watchTask\<close>, once a probe has reported \<open>watchexec\<close>, does the same with the watch
  operation. Neither enters \<open>collectArgumentValues\<close>.
\<close>

theorem trivial_spec_skips_collector:
  assumes "getTaskInfo svc taskName = Inr (Some info)"
      and "args (usageSpec info) = []" and "flags (usageSpec info) = []"
  shows "calls (runTask svc taskName ans) =
           GetTaskInfo taskName # RunTask taskName [] #
             (case miseService_runTask svc taskName [] of
                Inl e \<Rightarrow> [ShowErrorMessage (failedToRunTask taskName e)]
              | Inr u \<Rightarrow> []) \<and>
         CallCollectArgumentValues \<notin> set (calls (runTask svc taskName ans)) \<and>
         CallCollectArgumentValues \<notin> set (calls (watchTask svc execAsync taskName ans)) \<and>
         calls (watchTask svc execAsync taskName ans) =
           (if toolsReportWatchexec (getTools svc) \<or>
               probeReportsWatchexec (execAsync ''which watchexec'')
            then GetTools # ExecAsync ''which watchexec'' #
                 GetTaskInfo taskName # WatchTask taskName [] #
                   (case miseService_watchTask svc taskName [] of
                      Inl e \<Rightarrow> [ShowErrorMessage (failedToRunTask taskName e)]
                    | Inr u \<Rightarrow> [])
            else [GetTools, ExecAsync ''which watchexec'', ShowErrorMessage watchexecRequired])"
proof (cases "toolsReportWatchexec (getTools svc) \<or>
              probeReportsWatchexec (execAsync ''which watchexec'')")
  case True
  show ?thesis
    using True
    by (simp add: runTask_trivial [OF assms] watchTask_present [of svc execAsync, OF True]
          guarded_trivial [OF assms] calls_def split: sum.splits)
next
  case False
  then have a: "\<not> toolsReportWatchexec (getTools svc)"
    and b: "\<not> probeReportsWatchexec (execAsync ''which watchexec'')" by simp_all
  show ?thesis
    using False
    by (simp add: runTask_trivial [OF assms] watchTask_absent [of svc execAsync, OF a b]
          calls_def split: sum.splits)
qed

theorem trivial_spec_skips_collector_witness:
  "getTaskInfo (idleService\<lparr>getTaskInfo := (\<lambda>taskName. Inr (Some plainInfo))\<rparr>) ''build'' =
     Inr (Some plainInfo) \<and>
   args (usageSpec plainInfo) = [] \<and> flags (usageSpec plainInfo) = [] \<and>
   calls (runTask (idleService\<lparr>getTaskInfo := (\<lambda>taskName. Inr (Some plainInfo))\<rparr>) ''build''
            [Some ''x'']) =
     [GetTaskInfo ''build'', RunTask ''build'' []] \<and>
   calls (watchTask (idleService\<lparr>getTaskInfo := (\<lambda>taskName. Inr (Some plainInfo))\<rparr>) whichFinds
            ''build'' [Some ''x'']) =
     [GetTools, ExecAsync ''which watchexec'', GetTaskInfo ''build'', WatchTask ''build'' []]"
  using trivial_spec_skips_collector
    [of "idleService\<lparr>getTaskInfo := (\<lambda>taskName. Inr (Some plainInfo))\<rparr>" "''build''" plainInfo
        "[Some ''x'']" whichFinds]
  by (simp add: example_defs toolsReportWatchexec_def probeReportsWatchexec_def)

section \<open>A task the backend does not know\<close>

text \<open>
  C5. When the lookup of the task gives nothing, \<open>runTask\<close> makes exactly two calls: the
  lookup and the error notification naming the task. The backend's run operation is not
  called, no prompt is shown, and the promise fulfils: the error does not leave \<open>runTask\<close>.
\<close>

theorem runTask_task_not_found:
  assumes "getTaskInfo svc taskName = Inr None"
  shows "runTask svc taskName ans =
           (Inr (), ans,
            [GetTaskInfo taskName,
             ShowErrorMessage (''Failed to run task '' @ quoted taskName @ '': Error: Task '' @
                               quoted taskName @ '' not found'')])"
  using assms
  by (simp add: runTask_def runTask_try_def async_defs quoted_def taskNotFound_def
        failedToRunTask_def)

theorem runTask_task_not_found_witness:
  "getTaskInfo idleService ''build'' = Inr None \<and>
   runTask idleService ''build'' [Some ''x''] =
     (Inr (), [Some ''x''],
      [GetTaskInfo ''build'',
       ShowErrorMessage ''Failed to run task 'build': Error: Task 'build' not found''])"
  using runTask_task_not_found [of idleService "''build''" "[Some ''x'']"]
  by (simp add: idleService_def quoted_def)

section \<open>Flags\<close>

lemma collectFlag_declined:
  assumes "nextAnswer ans \<noteq> Some ''Yes''"
  shows "collectFlag flag cmdArgs ans =
           (Inr cmdArgs, tl ans, [ShowQuickPick (flagQuestion flag) (nextAnswer ans)])"
  using assms by (simp add: collectFlag_def flagQuestion_def async_defs split: option.splits)

lemma forEach_collectFlag_resolves:
  "\<exists>toks. outcome (forEach collectFlag fs cmdArgs ans) = Inr toks"
proof (induction fs arbitrary: cmdArgs ans)
  case Nil
  show ?case by (simp add: async_defs)
next
  case (Cons f fs)
  obtain c a es where b: "collectFlag f cmdArgs ans = (Inr c, a, es)"
    by (cases "collectFlag f cmdArgs ans")
       (auto simp add: collectFlag_def async_defs split: option.splits if_splits)
  from Cons.IH [of c a] obtain toks where "outcome (forEach collectFlag fs c a) = Inr toks"
    by blast
  with b show ?case
    by (cases "forEach collectFlag fs c a") (simp add: andThen_def outcome_def)
qed

text \<open>
  C6, as the code has it. The test \<open>if (flag.arg)\<close> takes a flag for value-taking when its
  \<open>arg\<close> is present and not the empty text. For such a flag: answered \<open>Yes\<close> and then given
  a non-empty value, the name and the value are appended, in this order; answered \<open>Yes\<close>
  and then given the empty text or nothing, or answered \<open>No\<close>, or dismissed, nothing is
  appended. A task with this flag alone gives the two tokens, or none.
\<close>

theorem valued_flag:
  assumes "flag_arg flag = Some placeHolder" and "placeHolder \<noteq> []" and "v \<noteq> []"
  shows "collectFlag flag cmdArgs (Some ''Yes'' # Some v # ans) =
           (Inr (cmdArgs @ [flag_name flag, v]), ans,
            [ShowQuickPick (''Do you want to provide '' @ flag_name flag @ ''?'') (Some ''Yes''),
             ShowInputBox (''Enter value for '' @ flag_name flag) placeHolder (Some v)]) \<and>
         collectFlag flag cmdArgs (Some ''Yes'' # Some [] # ans) =
           (Inr cmdArgs, ans,
            [ShowQuickPick (''Do you want to provide '' @ flag_name flag @ ''?'') (Some ''Yes''),
             ShowInputBox (''Enter value for '' @ flag_name flag) placeHolder (Some [])]) \<and>
         collectFlag flag cmdArgs (Some ''Yes'' # None # ans) =
           (Inr cmdArgs, ans,
            [ShowQuickPick (''Do you want to provide '' @ flag_name flag @ ''?'') (Some ''Yes''),
             ShowInputBox (''Enter value for '' @ flag_name flag) placeHolder None]) \<and>
         collectFlag flag cmdArgs (Some ''No'' # ans) =
           (Inr cmdArgs, ans,
            [ShowQuickPick (''Do you want to provide '' @ flag_name flag @ ''?'') (Some ''No'')]) \<and>
         collectFlag flag cmdArgs (None # ans) =
           (Inr cmdArgs, ans,
            [ShowQuickPick (''Do you want to provide '' @ flag_name flag @ ''?'') None]) \<and>
         outcome (collectArgumentValues \<lparr>usageSpec = \<lparr>args = [], flags = [flag]\<rparr>\<rparr>
                    (Some ''Yes'' # Some v # ans)) = Inr [flag_name flag, v] \<and>
         outcome (collectArgumentValues \<lparr>usageSpec = \<lparr>args = [], flags = [flag]\<rparr>\<rparr>
                    (Some ''No'' # ans)) = Inr []"
  using assms
  by (simp add: collectArgumentValues_def collectFlag_def async_defs nextAnswer_def)

theorem valued_flag_witness:
  "flag_arg \<lparr>flag_name = ''--env'', flag_arg = Some ''<name>''\<rparr> = Some ''<name>'' \<and>
   ''<name>'' \<noteq> [] \<and> ''prod'' \<noteq> [] \<and>
   outcome (collectArgumentValues
              \<lparr>usageSpec = \<lparr>args = [], flags = [\<lparr>flag_name = ''--env'', flag_arg = Some ''<name>''\<rparr>]\<rparr>\<rparr>
              [Some ''Yes'', Some ''prod'']) = Inr [''--env'', ''prod''] \<and>
   outcome (collectArgumentValues
              \<lparr>usageSpec = \<lparr>args = [], flags = [\<lparr>flag_name = ''--env'', flag_arg = Some ''<name>''\<rparr>]\<rparr>\<rparr>
              [Some ''No'']) = Inr []"
  using valued_flag [of "\<lparr>flag_name = ''--env'', flag_arg = Some ''<name>''\<rparr>" "''<name>''"
                        "''prod''" "[]" "[]"]
  by simp

text \<open>
  A flag whose \<open>arg\<close> is present but empty is not treated so: it is asked about as a
  switch, no value is asked for, and \<open>Yes\<close> appends the name alone.
\<close>

theorem valued_flag_empty_label_counterexample:
  "collectFlag \<lparr>flag_name = ''--env'', flag_arg = Some []\<rparr> [] [Some ''Yes'', Some ''prod''] =
     (Inr [''--env''], [Some ''prod''], [ShowQuickPick ''Enable --env?'' (Some ''Yes'')]) \<and>
   outcome (collectArgumentValues
              \<lparr>usageSpec = \<lparr>args = [], flags = [\<lparr>flag_name = ''--env'', flag_arg = Some []\<rparr>]\<rparr>\<rparr>
              [Some ''Yes'', Some ''prod'']) \<noteq> Inr [''--env'', ''prod'']"
  by (simp add: collectArgumentValues_def collectFlag_def async_defs nextAnswer_def)

text \<open>
  C7. For a flag without \<open>arg\<close>, the answer \<open>Yes\<close> appends the name of the flag and nothing
  else, and the answer \<open>No\<close> appends nothing; a task with this flag alone gives the one
  token, or none.
\<close>

theorem boolean_flag:
  assumes "flag_arg flag = None"
  shows "collectFlag flag cmdArgs (Some ''Yes'' # ans) =
           (Inr (cmdArgs @ [flag_name flag]), ans,
            [ShowQuickPick (''Enable '' @ flag_name flag @ ''?'') (Some ''Yes'')]) \<and>
         collectFlag flag cmdArgs (Some ''No'' # ans) =
           (Inr cmdArgs, ans,
            [ShowQuickPick (''Enable '' @ flag_name flag @ ''?'') (Some ''No'')]) \<and>
         outcome (collectArgumentValues \<lparr>usageSpec = \<lparr>args = [], flags = [flag]\<rparr>\<rparr>
                    (Some ''Yes'' # ans)) = Inr [flag_name flag] \<and>
         outcome (collectArgumentValues \<lparr>usageSpec = \<lparr>args = [], flags = [flag]\<rparr>\<rparr>
                    (Some ''No'' # ans)) = Inr []"
  using assms
  by (simp add: collectArgumentValues_def collectFlag_def async_defs nextAnswer_def)

theorem boolean_flag_witness:
  "flag_arg \<lparr>flag_name = ''--verbose'', flag_arg = None\<rparr> = None \<and>
   outcome (collectArgumentValues
              \<lparr>usageSpec = \<lparr>args = [], flags = [\<lparr>flag_name = ''--verbose'', flag_arg = None\<rparr>]\<rparr>\<rparr>
              [Some ''Yes'']) = Inr [''--verbose''] \<and>
   outcome (collectArgumentValues
              \<lparr>usageSpec = \<lparr>args = [], flags = [\<lparr>flag_name = ''--verbose'', flag_arg = None\<rparr>]\<rparr>\<rparr>
              [Some ''No'']) = Inr []"
  using boolean_flag [of "\<lparr>flag_name = ''--verbose'', flag_arg = None\<rparr>" "[]" "[]"]
  by simp

text \<open>
  C9. Whatever the flag, when its question is dismissed or answered with anything but
  \<open>Yes\<close>, the flag appends nothing, the loop goes on to the next flag with the same tokens,
  and the loop over the flags resolves: declining a flag never fails the collection.
\<close>

theorem flag_prompt_declined:
  assumes "nextAnswer ans \<noteq> Some ''Yes''"
  shows "collectFlag flag cmdArgs ans =
           (Inr cmdArgs, tl ans, [ShowQuickPick (flagQuestion flag) (nextAnswer ans)]) \<and>
         forEach collectFlag (flag # rest) cmdArgs ans =
           (outcome (forEach collectFlag rest cmdArgs (tl ans)),
            fst (snd (forEach collectFlag rest cmdArgs (tl ans))),
            ShowQuickPick (flagQuestion flag) (nextAnswer ans) #
              calls (forEach collectFlag rest cmdArgs (tl ans))) \<and>
         (\<exists>toks. outcome (forEach collectFlag (flag # rest) cmdArgs ans) = Inr toks)"
proof -
  have b: "collectFlag flag cmdArgs ans =
             (Inr cmdArgs, tl ans, [ShowQuickPick (flagQuestion flag) (nextAnswer ans)])"
    using collectFlag_declined [OF assms] .
  have l: "forEach collectFlag (flag # rest) cmdArgs ans =
             (outcome (forEach collectFlag rest cmdArgs (tl ans)),
              fst (snd (forEach collectFlag rest cmdArgs (tl ans))),
              ShowQuickPick (flagQuestion flag) (nextAnswer ans) #
                calls (forEach collectFlag rest cmdArgs (tl ans)))"
    by (cases "forEach collectFlag rest cmdArgs (tl ans)")
       (simp add: b andThen_def outcome_def calls_def)
  from b l forEach_collectFlag_resolves [of "flag # rest" cmdArgs ans] show ?thesis by blast
qed

theorem flag_prompt_declined_witness:
  "nextAnswer [None, Some ''Maybe''] \<noteq> Some ''Yes'' \<and>
   forEach collectFlag
     [\<lparr>flag_name = ''--env'', flag_arg = Some ''<name>''\<rparr>,
      \<lparr>flag_name = ''--verbose'', flag_arg = None\<rparr>] [''src''] [None, Some ''Maybe''] =
     (Inr [''src''], [],
      [ShowQuickPick ''Do you want to provide --env?'' None,
       ShowQuickPick ''Enable --verbose?'' (Some ''Maybe'')])"
  using flag_prompt_declined
    [of "[None, Some ''Maybe'']" "\<lparr>flag_name = ''--env'', flag_arg = Some ''<name>''\<rparr>" "[''src'']"
        "[\<lparr>flag_name = ''--verbose'', flag_arg = None\<rparr>]"]
  by (simp add: collectFlag_def flagQuestion_def async_defs nextAnswer_def)

section \<open>File events\<close>

lemma concat_silent: "(\<And>x. x \<in> set xs \<Longrightarrow> f x = []) \<Longrightarrow> concat (map f xs) = []"
  by (induction xs) simp_all

lemma listeners_unheard: "unheard watcher \<Longrightarrow> listeners kind watcher = []"
  by (cases kind) (simp_all add: unheard_def)

lemma fire_unheard:
  assumes "list_all unheard (fileWatchers self)"
  shows "fire covers self ev = []"
proof -
  obtain enabled kind uri where ev: "ev = (enabled, kind, uri)" by (cases ev)
  have "\<And>watcher. watcher \<in> set (fileWatchers self) \<Longrightarrow> listeners kind watcher = []"
    using assms listeners_unheard by (simp add: list_all_iff)
  then show ?thesis
    unfolding fire_def ev by (simp add: concat_silent)
qed

lemma fireAll_unheard:
  assumes "list_all unheard (fileWatchers self)"
  shows "fireAll covers self evs = []"
  unfolding fireAll_def by (rule concat_silent) (rule fire_unheard [OF assms])

lemma enabled_event_probes:
  assumes "watcher \<in> set (fileWatchers self)" and "covers watcher uri"
      and "listeners kind watcher \<noteq> []"
  shows "ExecMiseCommand ''tasks ls'' \<in> set (fire covers self (True, kind, uri))"
proof -
  from assms(3) obtain l ls where ls: "listeners kind watcher = l # ls"
    by (cases "listeners kind watcher") simp_all
  have p: "ExecMiseCommand ''tasks ls'' \<in> set (snd (handleFileChange self True uri))"
    by (simp add: handleFileChange_def split: sum.splits)
  have "ExecMiseCommand ''tasks ls'' \<in>
        set (concat (map (\<lambda>l. case l of HandleFileChange \<Rightarrow> snd (handleFileChange self True uri))
               (listeners kind watcher)))"
    using p by (cases l) (simp add: ls)
  with assms(1,2) show ?thesis
    unfolding fire_def by (simp, intro bexI [of _ watcher]) simp_all
qed

lemma initializeFileWatcher_no_root:
  assumes "truthyValue (getRootFolder cfg) = None"
  shows "initializeFileWatcher cfg self = (Inr (), self, [])"
  using assms by (simp add: initializeFileWatcher_def)

lemma initializeFileWatcher_registers:
  assumes "truthyValue (getRootFolder cfg) = Some rootFolder"
      and "getMiseConfigFiles (miseService self) = Inr configFiles"
      and "list_all unheard (fileWatchers self)"
  shows "list_all (\<lambda>watcher. onDidChange watcher = [HandleFileChange] \<and>
                    onDidCreate watcher = [HandleFileChange] \<and>
                    onDidDelete watcher = [HandleFileChange] \<and> subscribed watcher)
           (fileWatchers (fst (snd (initializeFileWatcher cfg self))))"
  using assms
  by (simp add: initializeFileWatcher_def Let_def list_all_iff register_def unheard_def
        createFileSystemWatcher_def) auto

text \<open>
  C8. With the extension disabled, \<open>handleFileChange\<close> returns at once: it calls neither
  the backend nor the change callback. So an event of any kind, for any path, on any
  watcher leaves no call behind.
\<close>

theorem disabled_flag_ignores_event:
  "handleFileChange self False uri = (Inr (), []) \<and>
   fire covers self (False, kind, uri) = []"
proof -
  have h: "handleFileChange self False uri = (Inr (), [])"
    by (simp add: handleFileChange_def)
  have "\<And>watcher. concat (map (\<lambda>l. case l of HandleFileChange \<Rightarrow>
            snd (handleFileChange self False uri)) (listeners kind watcher)) = []"
    by (rule concat_silent) (simp add: h split: listener.splits)
  then have "fire covers self (False, kind, uri) = []"
    unfolding fire_def by (simp add: concat_silent)
  with h show ?thesis by simp
qed

text \<open>
  C10. When there is a root folder and the listing of the configuration files rejects, the
  constructor still returns the instance and the rejection goes to the logger only. The
  instance holds the one watcher created before the listing, without a listener and not
  pushed to the subscriptions; so whatever events come, nothing is called.
\<close>

theorem config_listing_failure:
  assumes "getRootFolder cfg = Some rootFolder"
      and "rootFolder \<noteq> []"
      and "getMiseConfigFiles service = Inl e"
  shows "newMiseFileWatcher cfg service callback =
           (Inr \<lparr>fileWatchers =
                   [createFileSystemWatcher rootFolder (''{'' @ misePatterns cfg @ ''}'')],
                 miseService = service, onConfigChangeCallback = callback\<rparr>,
            [GetMiseConfigFiles, LoggerWarn ''Error initializing file watcher'',
             LoggerInfo ''Unable to initialize file watcher'']) \<and>
         unheard (createFileSystemWatcher rootFolder (''{'' @ misePatterns cfg @ ''}'')) \<and>
         \<not> subscribed (createFileSystemWatcher rootFolder (''{'' @ misePatterns cfg @ ''}'')) \<and>
         fireAll covers
           \<lparr>fileWatchers =
              [createFileSystemWatcher rootFolder (''{'' @ misePatterns cfg @ ''}'')],
            miseService = service, onConfigChangeCallback = callback\<rparr> evs = []"
proof -
  have u: "unheard (createFileSystemWatcher rootFolder (''{'' @ misePatterns cfg @ ''}''))"
    by (simp add: unheard_def createFileSystemWatcher_def)
  have n: "newMiseFileWatcher cfg service callback =
           (Inr \<lparr>fileWatchers =
                   [createFileSystemWatcher rootFolder (''{'' @ misePatterns cfg @ ''}'')],
                 miseService = service, onConfigChangeCallback = callback\<rparr>,
            [GetMiseConfigFiles, LoggerWarn ''Error initializing file watcher'',
             LoggerInfo ''Unable to initialize file watcher''])"
    using assms by (simp add: newMiseFileWatcher_def initializeFileWatcher_def Let_def)
  have f: "fireAll covers
           \<lparr>fileWatchers =
              [createFileSystemWatcher rootFolder (''{'' @ misePatterns cfg @ ''}'')],
            miseService = service, onConfigChangeCallback = callback\<rparr> evs = []"
    using u by (intro fireAll_unheard) simp
  have s: "\<not> subscribed (createFileSystemWatcher rootFolder (''{'' @ misePatterns cfg @ ''}''))"
    by (simp add: createFileSystemWatcher_def)
  from u n f s show ?thesis by simp
qed

theorem config_listing_failure_witness:
  "getRootFolder workspaceConfig = Some ''/work'' \<and>
   ''/work'' \<noteq> [] \<and>
   getMiseConfigFiles (idleService\<lparr>getMiseConfigFiles := Inl (Error ''mise not found'')\<rparr>) =
     Inl (Error ''mise not found'') \<and>
   newMiseFileWatcher workspaceConfig
       (idleService\<lparr>getMiseConfigFiles := Inl (Error ''mise not found'')\<rparr>) notify =
     (Inr \<lparr>fileWatchers =
             [\<lparr>watch_base = ''/work'', watch_pattern = ''{mise.toml,.mise.toml}'',
               onDidChange = [], onDidCreate = [], onDidDelete = [], subscribed = False\<rparr>],
           miseService = idleService\<lparr>getMiseConfigFiles := Inl (Error ''mise not found'')\<rparr>,
           onConfigChangeCallback = notify\<rparr>,
      [GetMiseConfigFiles, LoggerWarn ''Error initializing file watcher'',
       LoggerInfo ''Unable to initialize file watcher'']) \<and>
   fireAll (\<lambda>watcher uri. True)
     \<lparr>fileWatchers =
        [\<lparr>watch_base = ''/work'', watch_pattern = ''{mise.toml,.mise.toml}'',
          onDidChange = [], onDidCreate = [], onDidDelete = [], subscribed = False\<rparr>],
      miseService = idleService\<lparr>getMiseConfigFiles := Inl (Error ''mise not found'')\<rparr>,
      onConfigChangeCallback = notify\<rparr>
     [(True, DidChange, ''/work/mise.toml''), (True, DidDelete, ''/work/mise.toml'')] = []"
  using config_listing_failure
    [of workspaceConfig "''/work''"
        "idleService\<lparr>getMiseConfigFiles := Inl (Error ''mise not found'')\<rparr>"
        "Error ''mise not found''" notify "\<lambda>watcher uri. True"
        "[(True, DidChange, ''/work/mise.toml''), (True, DidDelete, ''/work/mise.toml'')]"]
  by (simp add: workspaceConfig_def idleService_def createFileSystemWatcher_def)

end
